theory Spec2Isabelle
  imports Complex_Main "HOL-Library.Monad_Syntax"
begin

section \<open>Data model\<close>

text \<open>
  The repository is a thin layer over the Temporal polyfill, the host's \<open>Intl\<close> object and
  the \<open>ordinal\<close> package. The functions of the repository are embedded one by one under
  their own names. What they call in those libraries is either taken as a parameter
  (the time-zone database, the clock, the \<open>Intl\<close> constructors, the ISO parsers) or, where
  a claim needs concrete values, modelled after the libraries' documented behaviour in a
  section of its own.
\<close>

datatype error = RangeError | TypeError | IntlUnsupported

text \<open>\<open>Temporal.Instant\<close>: a count of nanoseconds since the epoch, a BigInt in the library.\<close>

datatype instant = Instant (epochNanoseconds: int)

definition nsMaxInstant :: int where
  "nsMaxInstant = 8640000000000000000000"

definition valid_instant :: "instant \<Rightarrow> bool" where
  "valid_instant i = (\<bar>epochNanoseconds i\<bar> \<le> nsMaxInstant)"

text \<open>\<open>Temporal.PlainDate\<close>, \<open>Temporal.PlainTime\<close> and \<open>Temporal.PlainDateTime\<close> hold ISO
  calendar fields.\<close>

record plain_date =
  year :: int
  month :: int
  day :: int

record plain_time =
  hour :: int
  minute :: int
  second :: int
  millisecond :: int
  microsecond :: int
  nanosecond :: int

record plain_date_time =
  pdt_date :: plain_date
  pdt_time :: plain_time

text \<open>\<open>Temporal.ZonedDateTime\<close> (ISO calendar): an exact time and a time-zone identifier.\<close>

record zoned_date_time =
  zdt_epochNanoseconds :: int
  timeZoneId :: string

text \<open>The legacy \<open>Date\<close>: a time value in whole milliseconds, or NaN (an invalid date).\<close>

datatype js_date = Date int | InvalidDate

text \<open>A string argument of type \<open>string | null | undefined\<close>.\<close>

datatype js_string = Null | Undefined | Str string

text \<open>The argument of \<open>toJSDateUTC\<close>, of type \<open>Temporal.ZonedDateTime | Temporal.Instant\<close>.\<close>

datatype zoned_or_instant = OfInstant instant | OfZoned zoned_date_time

text \<open>An interval of the comparison module, \<open>{ start, end }\<close>.\<close>

record interval =
  iv_start :: instant
  iv_end :: instant

text \<open>
  One entry of the host's time-zone database: the UTC offset (in nanoseconds) in force at
  an exact time, and the exact time chosen for a wall-clock reading (given in nanoseconds
  since the epoch as if it were UTC) under the library's default disambiguation. The
  database maps an identifier to its entry, or to nothing when the host does not know it.
\<close>

record tz_rules =
  offsetNanosecondsFor :: "int \<Rightarrow> int"
  epochNanosecondsFor :: "int \<Rightarrow> int"

type_synonym tz_database = "string \<Rightarrow> tz_rules option"


definition utc_rules :: tz_rules where
  "utc_rules = \<lparr>offsetNanosecondsFor = (\<lambda>_. 0), epochNanosecondsFor = (\<lambda>w. w)\<rparr>"

text \<open>The library resolves \<open>UTC\<close> itself and asks the host for everything else; an unknown
  identifier is a \<open>RangeError\<close>.\<close>

definition resolve_zone :: "tz_database \<Rightarrow> string \<Rightarrow> error + tz_rules" where
  "resolve_zone tzdb tz =
     (if tz = ''UTC'' then Inr utc_rules
      else case tzdb tz of None \<Rightarrow> Inl RangeError | Some r \<Rightarrow> Inr r)"

section \<open>The ISO calendar of the Temporal library\<close>

definition isLeapYear :: "int \<Rightarrow> bool" where
  "isLeapYear y = (y mod 4 = 0 \<and> (y mod 100 \<noteq> 0 \<or> y mod 400 = 0))"

definition daysInMonth :: "int \<Rightarrow> int \<Rightarrow> int" where
  "daysInMonth y m =
     (if m = 2 then (if isLeapYear y then 29 else 28)
      else if m = 4 \<or> m = 6 \<or> m = 9 \<or> m = 11 then 30 else 31)"

definition valid_date :: "plain_date \<Rightarrow> bool" where
  "valid_date d = (1 \<le> month d \<and> month d \<le> 12 \<and> 1 \<le> day d \<and> day d \<le> daysInMonth (year d) (month d))"

text \<open>Days since 1970-01-01 of a calendar date, and back (proleptic Gregorian calendar).\<close>

definition days_from_civil :: "int \<Rightarrow> int \<Rightarrow> int \<Rightarrow> int" where
  "days_from_civil y m d =
     (let y' = (if m \<le> 2 then y - 1 else y);
          era = y' div 400;
          yoe = y' - era * 400;
          doy = (153 * (if m > 2 then m - 3 else m + 9) + 2) div 5 + d - 1;
          doe = yoe * 365 + yoe div 4 - yoe div 100 + doy
      in era * 146097 + doe - 719468)"

definition civil_from_days :: "int \<Rightarrow> plain_date" where
  "civil_from_days z =
     (let z' = z + 719468;
          era = z' div 146097;
          doe = z' - era * 146097;
          yoe = (doe - doe div 1460 + doe div 36524 - doe div 146096) div 365;
          doy = doe - (365 * yoe + yoe div 4 - yoe div 100);
          mp = (5 * doy + 2) div 153;
          d = doy - (153 * mp + 2) div 5 + 1;
          m = (if mp < 10 then mp + 3 else mp - 9)
      in \<lparr>year = (if m \<le> 2 then yoe + era * 400 + 1 else yoe + era * 400), month = m, day = d\<rparr>)"

definition epochDays :: "plain_date \<Rightarrow> int" where
  "epochDays d = days_from_civil (year d) (month d) (day d)"

definition nsPerDay :: int where
  "nsPerDay = 86400000000000"

definition time_nanoseconds :: "plain_time \<Rightarrow> int" where
  "time_nanoseconds t =
     ((((hour t * 60 + minute t) * 60 + second t) * 1000 + millisecond t) * 1000
        + microsecond t) * 1000 + nanosecond t"


text \<open>The wall-clock reading of a date-time as nanoseconds since the epoch, read as UTC.\<close>

definition wall_nanoseconds :: "plain_date_time \<Rightarrow> int" where
  "wall_nanoseconds dt = epochDays (pdt_date dt) * nsPerDay + time_nanoseconds (pdt_time dt)"

text \<open>\<open>Temporal.PlainDate.compare\<close>, \<open>Temporal.Instant.compare\<close>: three-way comparisons.\<close>

definition compare_int :: "int \<Rightarrow> int \<Rightarrow> int" where
  "compare_int a b = (if a < b then - 1 else if a > b then 1 else 0)"

definition PlainDate_compare :: "plain_date \<Rightarrow> plain_date \<Rightarrow> int" where
  "PlainDate_compare a b =
     (if year a \<noteq> year b then compare_int (year a) (year b)
      else if month a \<noteq> month b then compare_int (month a) (month b)
      else compare_int (day a) (day b))"

definition Instant_compare :: "instant \<Rightarrow> instant \<Rightarrow> int" where
  "Instant_compare a b = compare_int (epochNanoseconds a) (epochNanoseconds b)"

section \<open>Conversion\<close>

text \<open>\<open>epochMilliseconds\<close> of an instant or a zoned date-time: whole milliseconds, rounded
  down.\<close>

definition epochMilliseconds :: "zoned_or_instant \<Rightarrow> int" where
  "epochMilliseconds dt =
     (case dt of OfInstant i \<Rightarrow> epochNanoseconds i div 1000000
               | OfZoned z \<Rightarrow> zdt_epochNanoseconds z div 1000000)"

text \<open>\<open>new Date(ms)\<close>: the time value is clipped to the range of \<open>Date\<close>.\<close>

definition new_Date :: "int \<Rightarrow> js_date" where
  "new_Date ms = (if \<bar>ms\<bar> \<le> 8640000000000000 then Date ms else InvalidDate)"

definition toJSDateUTC :: "zoned_or_instant \<Rightarrow> js_date" where
  "toJSDateUTC dt = new_Date (epochMilliseconds dt)"

text \<open>\<open>toTemporalInstant\<close>: the time value times \<open>10^6\<close>; an invalid date has no BigInt.\<close>

definition toInstant :: "js_date \<Rightarrow> error + instant" where
  "toInstant date =
     (case date of InvalidDate \<Rightarrow> Inl RangeError
                 | Date ms \<Rightarrow> Inr (Instant (ms * 1000000)))"




section \<open>Comparison\<close>

definition isInstantBefore :: "instant \<Rightarrow> instant \<Rightarrow> bool" where
  "isInstantBefore i comparedWith = (Instant_compare i comparedWith = - 1)"

definition areIntervalsOverlapping :: "interval \<Rightarrow> interval \<Rightarrow> bool" where
  "areIntervalsOverlapping interval1 interval2 =
     (isInstantBefore (iv_start interval1) (iv_end interval2) \<and>
      isInstantBefore (iv_start interval2) (iv_end interval1))"

section \<open>Parsing\<close>

text \<open>
  The base parsers are single calls of the library (\<open>Temporal.PlainDate.from\<close> and its
  siblings), which either return a value or throw. Each is a parameter here; the optional
  parsers are the repository's own code.
\<close>

definition falsy :: "js_string \<Rightarrow> bool" where
  "falsy s = (case s of Null \<Rightarrow> True | Undefined \<Rightarrow> True | Str t \<Rightarrow> t = [])"

definition parsePlainDate :: "(string \<Rightarrow> error + plain_date) \<Rightarrow> string \<Rightarrow> error + plain_date" where
  "parsePlainDate PlainDate_from iso8601DateStr = PlainDate_from iso8601DateStr"

definition parseOptionalPlainDate ::
  "(string \<Rightarrow> error + plain_date) \<Rightarrow> js_string \<Rightarrow> error + plain_date option" where
  "parseOptionalPlainDate PlainDate_from iso8601DateStr =
     (if falsy iso8601DateStr then Inr None
      else case iso8601DateStr of
             Str s \<Rightarrow> map_sum id Some (parsePlainDate PlainDate_from s)
           | _ \<Rightarrow> Inr None)"

definition parsePlainDateTime ::
  "(string \<Rightarrow> error + plain_date_time) \<Rightarrow> string \<Rightarrow> error + plain_date_time" where
  "parsePlainDateTime PlainDateTime_from iso8601DateTimeStr = PlainDateTime_from iso8601DateTimeStr"

definition parseOptionalPlainDateTime ::
  "(string \<Rightarrow> error + plain_date_time) \<Rightarrow> js_string \<Rightarrow> error + plain_date_time option" where
  "parseOptionalPlainDateTime PlainDateTime_from iso8601DateTimeStr =
     (if falsy iso8601DateTimeStr then Inr None
      else case iso8601DateTimeStr of
             Str s \<Rightarrow> map_sum id Some (parsePlainDateTime PlainDateTime_from s)
           | _ \<Rightarrow> Inr None)"

definition parseZonedDateTime ::
  "(string \<Rightarrow> error + zoned_date_time) \<Rightarrow> string \<Rightarrow> error + zoned_date_time" where
  "parseZonedDateTime ZonedDateTime_from iso8601DateTimeStr = ZonedDateTime_from iso8601DateTimeStr"

definition parseOptionalZonedDateTime ::
  "(string \<Rightarrow> error + zoned_date_time) \<Rightarrow> js_string \<Rightarrow> error + zoned_date_time option" where
  "parseOptionalZonedDateTime ZonedDateTime_from iso8601DateStr =
     (if falsy iso8601DateStr then Inr None
      else case iso8601DateStr of
             Str s \<Rightarrow> map_sum id Some (parseZonedDateTime ZonedDateTime_from s)
           | _ \<Rightarrow> Inr None)"

definition parseInstant :: "(string \<Rightarrow> error + instant) \<Rightarrow> string \<Rightarrow> error + instant" where
  "parseInstant Instant_from iso8601DateTimeStr = Instant_from iso8601DateTimeStr"

definition parseOptionalInstant ::
  "(string \<Rightarrow> error + instant) \<Rightarrow> js_string \<Rightarrow> error + instant option" where
  "parseOptionalInstant Instant_from iso8601DateStr =
     (if falsy iso8601DateStr then Inr None
      else case iso8601DateStr of
             Str s \<Rightarrow> map_sum id Some (parseInstant Instant_from s)
           | _ \<Rightarrow> Inr None)"

definition parsePlainTime :: "(string \<Rightarrow> error + plain_time) \<Rightarrow> string \<Rightarrow> error + plain_time" where
  "parsePlainTime PlainTime_from timeStr = PlainTime_from timeStr"

definition parseOptionalPlainTime ::
  "(string \<Rightarrow> error + plain_time) \<Rightarrow> js_string \<Rightarrow> error + plain_time option" where
  "parseOptionalPlainTime PlainTime_from timeStr =
     (if falsy timeStr then Inr None
      else case timeStr of
             Str s \<Rightarrow> map_sum id Some (parsePlainTime PlainTime_from s)
           | _ \<Rightarrow> Inr None)"

section \<open>Now\<close>

text \<open>
  \<open>now()\<close> returns \<open>Temporal.Now.instant()\<close>, the host's clock. A clock is the sequence of
  its readings during one call of a function of the repository: \<open>now clk k\<close> is the
  reading number \<open>k\<close>. A test that fixes the clock makes the sequence constant.
\<close>

type_synonym clock = "nat \<Rightarrow> instant"

definition now :: "clock \<Rightarrow> nat \<Rightarrow> instant" where
  "now clk k = clk k"

definition fixed_clock :: "instant \<Rightarrow> clock" where
  "fixed_clock i = (\<lambda>_. i)"

text \<open>\<open>Instant.toZonedDateTimeISO(tz)\<close> refuses an identifier it cannot resolve.\<close>

definition toZonedDateTimeISO :: "tz_database \<Rightarrow> instant \<Rightarrow> string \<Rightarrow> error + zoned_date_time" where
  "toZonedDateTimeISO tzdb i tz =
     (case resolve_zone tzdb tz of
        Inl e \<Rightarrow> Inl e
      | Inr r \<Rightarrow> Inr \<lparr>zdt_epochNanoseconds = epochNanoseconds i, timeZoneId = tz\<rparr>)"

text \<open>The wall-clock reading of a zoned date-time, and \<open>ZonedDateTime.toPlainDate()\<close>.\<close>

definition zdt_wall_nanoseconds :: "tz_database \<Rightarrow> zoned_date_time \<Rightarrow> error + int" where
  "zdt_wall_nanoseconds tzdb z =
     (case resolve_zone tzdb (timeZoneId z) of
        Inl e \<Rightarrow> Inl e
      | Inr r \<Rightarrow> Inr (zdt_epochNanoseconds z + offsetNanosecondsFor r (zdt_epochNanoseconds z)))"

definition zdt_toPlainDate :: "tz_database \<Rightarrow> zoned_date_time \<Rightarrow> error + plain_date" where
  "zdt_toPlainDate tzdb z =
     (case zdt_wall_nanoseconds tzdb z of
        Inl e \<Rightarrow> Inl e
      | Inr w \<Rightarrow> Inr (civil_from_days (w div nsPerDay)))"

definition nowLocal :: "clock \<Rightarrow> nat \<Rightarrow> tz_database \<Rightarrow> string \<Rightarrow> error + zoned_date_time" where
  "nowLocal clk k tzdb timezone = toZonedDateTimeISO tzdb (now clk k) timezone"

definition todayLocal :: "clock \<Rightarrow> nat \<Rightarrow> tz_database \<Rightarrow> string \<Rightarrow> error + plain_date" where
  "todayLocal clk k tzdb timezone =
     (case nowLocal clk k tzdb timezone of
        Inl e \<Rightarrow> Inl e
      | Inr z \<Rightarrow> zdt_toPlainDate tzdb z)"

section \<open>Date arithmetic of the Temporal library\<close>

text \<open>
  \<open>PlainDate.add({ days: n })\<close> adds \<open>n\<close> to the day field and balances the result month by
  month; a result outside the range of \<open>PlainDate\<close> (-271821-04-19 to +275760-09-13) is a
  \<open>RangeError\<close>. \<open>subtract\<close> negates the duration and adds.
\<close>

definition next_day :: "plain_date \<Rightarrow> plain_date" where
  "next_day d =
     (if day d < daysInMonth (year d) (month d) then d\<lparr>day := day d + 1\<rparr>
      else if month d < 12 then d\<lparr>month := month d + 1, day := 1\<rparr>
      else \<lparr>year = year d + 1, month = 1, day = 1\<rparr>)"

definition prev_day :: "plain_date \<Rightarrow> plain_date" where
  "prev_day d =
     (if 1 < day d then d\<lparr>day := day d - 1\<rparr>
      else if 1 < month d
        then d\<lparr>month := month d - 1, day := daysInMonth (year d) (month d - 1)\<rparr>
      else \<lparr>year = year d - 1, month = 12, day = 31\<rparr>)"

definition minPlainDate :: plain_date where
  "minPlainDate = \<lparr>year = - 271821, month = 4, day = 19\<rparr>"

definition maxPlainDate :: plain_date where
  "maxPlainDate = \<lparr>year = 275760, month = 9, day = 13\<rparr>"

definition date_in_range :: "plain_date \<Rightarrow> bool" where
  "date_in_range d =
     (PlainDate_compare minPlainDate d \<noteq> 1 \<and> PlainDate_compare d maxPlainDate \<noteq> 1)"

definition PlainDate_add_days :: "plain_date \<Rightarrow> int \<Rightarrow> error + plain_date" where
  "PlainDate_add_days d n =
     (let r = (if 0 \<le> n then (next_day ^^ nat n) d else (prev_day ^^ nat (- n)) d)
      in if date_in_range r then Inr r else Inl RangeError)"

definition PlainDate_subtract_days :: "plain_date \<Rightarrow> int \<Rightarrow> error + plain_date" where
  "PlainDate_subtract_days d n = PlainDate_add_days d (- n)"

text \<open>\<open>dayOfWeek\<close>: Monday is 1, Sunday is 7 (1970-01-01 was a Thursday).\<close>

definition dayOfWeek :: "plain_date \<Rightarrow> int" where
  "dayOfWeek d = (epochDays d + 3) mod 7 + 1"

section \<open>Comparison with today\<close>

definition isToday :: "clock \<Rightarrow> tz_database \<Rightarrow> plain_date \<Rightarrow> string \<Rightarrow> error + bool" where
  "isToday clk tzdb date timezone =
     (case todayLocal clk 0 tzdb timezone of
        Inl e \<Rightarrow> Inl e
      | Inr today \<Rightarrow> Inr (PlainDate_compare date today = 0))"

definition isTomorrow :: "clock \<Rightarrow> tz_database \<Rightarrow> plain_date \<Rightarrow> string \<Rightarrow> error + bool" where
  "isTomorrow clk tzdb date timezone =
     (case PlainDate_subtract_days date 1 of
        Inl e \<Rightarrow> Inl e
      | Inr d \<Rightarrow> isToday clk tzdb d timezone)"

definition isYesterday :: "clock \<Rightarrow> tz_database \<Rightarrow> plain_date \<Rightarrow> string \<Rightarrow> error + bool" where
  "isYesterday clk tzdb date timezone =
     (case PlainDate_add_days date 1 of
        Inl e \<Rightarrow> Inl e
      | Inr d \<Rightarrow> isToday clk tzdb d timezone)"

section \<open>Calculations\<close>

text \<open>
  \<open>addBusinessDays\<close>: the \<open>while\<close> loop that skips the days the predicate refuses, and the
  \<open>for\<close> loop that counts \<open>i\<close> from 1 to \<open>n\<close>. Both are written as the loops they are, with no
  bound of their own; a run that never returned would be \<open>None\<close>. The predicate is a pure
  function of the date, and \<open>n\<close> an integer.
\<close>

partial_function (option) skip_loop ::
  "(plain_date \<Rightarrow> bool) \<Rightarrow> plain_date \<Rightarrow> (error + plain_date) option" where
  "skip_loop isBusinessDay next =
     (if \<not> isBusinessDay next
      then (case PlainDate_add_days next 1 of
              Inl e \<Rightarrow> Some (Inl e)
            | Inr next' \<Rightarrow> skip_loop isBusinessDay next')
      else Some (Inr next))"

partial_function (option) for_loop ::
  "(plain_date \<Rightarrow> bool) \<Rightarrow> int \<Rightarrow> int \<Rightarrow> plain_date \<Rightarrow> (error + plain_date) option" where
  "for_loop isBusinessDay n i next =
     (if i \<le> n
      then (case PlainDate_add_days next 1 of
              Inl e \<Rightarrow> Some (Inl e)
            | Inr next' \<Rightarrow>
                Option.bind (skip_loop isBusinessDay next')
                  (\<lambda>r. case r of
                          Inl e \<Rightarrow> Some (Inl e)
                        | Inr next'' \<Rightarrow> for_loop isBusinessDay n (i + 1) next''))
      else Some (Inr next))"

declare skip_loop.simps [code]
declare for_loop.simps [code]

definition addBusinessDays ::
  "plain_date \<Rightarrow> int \<Rightarrow> (plain_date \<Rightarrow> bool) \<Rightarrow> (error + plain_date) option" where
  "addBusinessDays date n isBusinessDay = for_loop isBusinessDay n 1 date"

definition defaultIsBusinessDay :: "plain_date \<Rightarrow> bool" where
  "defaultIsBusinessDay d = (dayOfWeek d \<ge> 1 \<and> dayOfWeek d \<le> 5)"

section \<open>The host's \<open>Intl\<close> object and the \<open>ordinal\<close> package\<close>

text \<open>
  \<open>Intl.DateTimeFormat\<close> is a parameter: given a locale (or \<open>undefined\<close>) and the options,
  it gives \<open>formatToParts\<close>, from the time value of a legacy date to the parts of the
  rendering. \<open>Intl.RelativeTimeFormat\<close> is a parameter too: given the \<open>numeric\<close> option it
  gives \<open>format\<close>, from a number and a unit to a phrase. A host may lack either.
\<close>

datatype month_format = MonthShort | MonthLong

datatype numeric_format = Numeric

record dtf_options =
  dtf_month :: "month_format option"
  dtf_day :: "numeric_format option"
  dtf_year :: "numeric_format option"

datatype part_kind = PartDay | PartMonth | PartYear | PartLiteral

datatype dtf_part = Part (part_type: part_kind) (part_value: string)

type_synonym date_time_format = "string option \<Rightarrow> dtf_options \<Rightarrow> int \<Rightarrow> dtf_part list"

datatype rtf_numeric = Always | Auto

datatype rtf_unit = Years | Months | Weeks | Days | Hours | Minutes | Seconds

type_synonym relative_time_format = "rtf_numeric \<Rightarrow> int \<Rightarrow> rtf_unit \<Rightarrow> string"

record intl =
  DateTimeFormat :: "date_time_format option"
  RelativeTimeFormat :: "relative_time_format option"

text \<open>Decimal digits of a natural number and of an integer, as JavaScript prints them.\<close>

definition digit_char :: "int \<Rightarrow> char" where
  "digit_char n = ''0123456789'' ! nat n"

function string_of_nonneg :: "int \<Rightarrow> string" where
  "string_of_nonneg n =
     (if n < 10 then [digit_char n]
      else string_of_nonneg (n div 10) @ [digit_char (n mod 10)])"
  by pat_completeness auto
termination
  by (relation "measure nat") auto

declare string_of_nonneg.simps [simp del]

definition string_of_int :: "int \<Rightarrow> string" where
  "string_of_int i = (if i < 0 then CHR ''-'' # string_of_nonneg (- i) else string_of_nonneg i)"

text \<open>
  \<open>Number.parseInt\<close> for decimal input: leading blanks, an optional sign, then the longest
  run of digits; no digit at all is NaN, written \<open>None\<close>.
\<close>

definition is_digit :: "char \<Rightarrow> bool" where
  "is_digit c = (c \<in> set ''0123456789'')"

definition digit_value :: "char \<Rightarrow> int" where
  "digit_value c = int (length (takeWhile (\<lambda>x. x \<noteq> c) ''0123456789''))"

definition digits_value :: "string \<Rightarrow> int" where
  "digits_value ds = foldl (\<lambda>acc c. acc * 10 + digit_value c) 0 ds"




section \<open>Formatting\<close>


text \<open>The options of \<open>formatPlainDateRange\<close>; \<open>includeDay\<close> is declared and never read.\<close>

datatype include_day = IncludeDayShort | IncludeDayLong | IncludeDayFalse







section \<open>Relative time\<close>

text \<open>
  \<open>Temporal.Duration\<close>, with the fields that \<open>Instant.since\<close> fills under its default
  options: seconds and below, every field with the sign of the difference. The larger
  fields stay zero and are left out.
\<close>

record duration =
  dur_seconds :: int
  dur_milliseconds :: int
  dur_microseconds :: int
  dur_nanoseconds :: int

text \<open>Division that rounds toward zero, as BigInt division does.\<close>

definition tdiv :: "int \<Rightarrow> int \<Rightarrow> int" where
  "tdiv a b = sgn a * sgn b * (\<bar>a\<bar> div \<bar>b\<bar>)"

definition Instant_since :: "instant \<Rightarrow> instant \<Rightarrow> duration" where
  "Instant_since i other =
     (let ns = epochNanoseconds i - epochNanoseconds other;
          s = tdiv ns 1000000000; r1 = ns - s * 1000000000;
          ms = tdiv r1 1000000; r2 = r1 - ms * 1000000;
          us = tdiv r2 1000
      in \<lparr>dur_seconds = s, dur_milliseconds = ms, dur_microseconds = us,
          dur_nanoseconds = r2 - us * 1000\<rparr>)"

definition duration_nanoseconds :: "duration \<Rightarrow> int" where
  "duration_nanoseconds d =
     ((dur_seconds d * 1000 + dur_milliseconds d) * 1000 + dur_microseconds d) * 1000
       + dur_nanoseconds d"

text \<open>\<open>Duration.total({ unit, relativeTo })\<close> of the library is a parameter: it gives a
  number or throws.\<close>

type_synonym duration_total = "duration \<Rightarrow> rtf_unit \<Rightarrow> zoned_date_time \<Rightarrow> error + real"

text \<open>\<open>Math.trunc\<close>: toward zero.\<close>

definition Math_trunc :: "real \<Rightarrow> int" where
  "Math_trunc x = (if x < 0 then \<lceil>x\<rceil> else \<lfloor>x\<rfloor>)"

text \<open>The two module-level formatters, \<open>null\<close> on a host without
  \<open>Intl.RelativeTimeFormat\<close>.\<close>

definition rtf :: "intl \<Rightarrow> (int \<Rightarrow> rtf_unit \<Rightarrow> string) option" where
  "rtf host = (case RelativeTimeFormat host of None \<Rightarrow> None | Some new \<Rightarrow> Some (new Always))"

definition rtfNumeric :: "intl \<Rightarrow> (int \<Rightarrow> rtf_unit \<Rightarrow> string) option" where
  "rtfNumeric host = (case RelativeTimeFormat host of None \<Rightarrow> None | Some new \<Rightarrow> Some (new Auto))"

definition units :: "rtf_unit list" where
  "units = [Years, Months, Weeks, Days, Hours, Minutes, Seconds]"

text \<open>
  The \<open>for\<close> loop of \<open>formatRelativeInstant\<close> over the units that are left, and the
  \<open>return\<close> after it. Each pass reads the clock again, through \<open>nowLocal("UTC")\<close>; \<open>k\<close> is
  the number of the reading.
\<close>

fun units_loop ::
  "(int \<Rightarrow> rtf_unit \<Rightarrow> string) \<Rightarrow> (int \<Rightarrow> rtf_unit \<Rightarrow> string) \<Rightarrow> duration_total \<Rightarrow>
   clock \<Rightarrow> tz_database \<Rightarrow> duration \<Rightarrow> nat \<Rightarrow> rtf_unit list \<Rightarrow> error + string" where
  "units_loop rtf_format rtfNumeric_format Duration_total clk tzdb duration k [] =
     Inr (rtfNumeric_format 0 Seconds)"
| "units_loop rtf_format rtfNumeric_format Duration_total clk tzdb duration k (unit # rest) =
     (case nowLocal clk k tzdb ''UTC'' of
        Inl e \<Rightarrow> Inl e
      | Inr relativeTo \<Rightarrow>
          (case Duration_total duration unit relativeTo of
             Inl e \<Rightarrow> Inl e
           | Inr num \<Rightarrow>
               (let d = Math_trunc num in
                if d \<noteq> 0 then Inr (rtf_format d unit)
                else units_loop rtf_format rtfNumeric_format Duration_total clk tzdb duration (Suc k) rest)))"

definition formatRelativeInstant ::
  "intl \<Rightarrow> duration_total \<Rightarrow> clock \<Rightarrow> tz_database \<Rightarrow> instant \<Rightarrow> error + string" where
  "formatRelativeInstant host Duration_total clk tzdb i =
     (case (rtf host, rtfNumeric host) of
        (Some rtf_format, Some rtfNumeric_format) \<Rightarrow>
          (let duration = Instant_since i (now clk 0)
           in units_loop rtf_format rtfNumeric_format Duration_total clk tzdb duration 1 units)
      | _ \<Rightarrow> Inl IntlUnsupported)"

definition formatRelativeIso8601DateTimeStr ::
  "(string \<Rightarrow> error + instant) \<Rightarrow> intl \<Rightarrow> duration_total \<Rightarrow> clock \<Rightarrow> tz_database \<Rightarrow> string
   \<Rightarrow> error + string" where
  "formatRelativeIso8601DateTimeStr Instant_from host Duration_total clk tzdb datetime =
     (case parseInstant Instant_from datetime of
        Inl e \<Rightarrow> Inl e
      | Inr i \<Rightarrow> formatRelativeInstant host Duration_total clk tzdb i)"

section \<open>A model of \<open>Duration.total\<close> relative to a UTC date-time\<close>

text \<open>
  For the dated examples, \<open>Duration.total\<close> is modelled after the algorithm of the Temporal
  proposal, for a duration of seconds and below and a \<open>relativeTo\<close> in UTC, where every
  day has 24 hours. Seconds to weeks divide the nanoseconds by the length of the unit.
  Months are counted by moving the date one month at a time while the whole days left
  allow it; years are the whole years between the date and the date moved by the whole
  days; in both cases the rest is a fraction of the month or year that follows. The
  library throws a \<open>RangeError\<close> where a step leaves the range of its types: the end of
  the duration must be an instant; for years, months, weeks and days, so must the whole
  days of the duration and one day more; and the month, the year or the week that
  follows the whole ones must end on a date. The result here is the exact quotient,
  where the library returns a double close to it.
\<close>

definition constrain_date :: "int \<Rightarrow> int \<Rightarrow> int \<Rightarrow> plain_date" where
  "constrain_date y m d = \<lparr>year = y, month = m, day = min d (daysInMonth y m)\<rparr>"

text \<open>\<open>PlainDate.add\<close> of years and months: the month is balanced into the year, the day is
  held back to the length of the month.\<close>

definition add_years_months :: "plain_date \<Rightarrow> int \<Rightarrow> int \<Rightarrow> plain_date" where
  "add_years_months d years months =
     (let m0 = month d - 1 + months;
          y = year d + years + m0 div 12;
          m = m0 mod 12 + 1
      in constrain_date y m (day d))"

definition daysUntil :: "plain_date \<Rightarrow> plain_date \<Rightarrow> int" where
  "daysUntil a b = epochDays b - epochDays a"

text \<open>The years of the difference of two dates with largest unit year.\<close>

definition difference_years :: "plain_date \<Rightarrow> plain_date \<Rightarrow> int" where
  "difference_years a b =
     (let sign = - PlainDate_compare a b in
      if sign = 0 then 0
      else
        let years = year b - year a;
            mid = add_years_months a years 0;
            midSign = - PlainDate_compare mid b
        in if midSign = 0 then years
           else
             let months = month b - month a;
                 years1 = (if midSign \<noteq> sign then years - sign else years);
                 months1 = (if midSign \<noteq> sign then months + sign * 12 else months);
                 mid1 = add_years_months a years1 months1;
                 midSign1 = - PlainDate_compare mid1 b
             in if midSign1 = 0 then years1
                else if midSign1 \<noteq> sign \<and> months1 - sign = - sign then years1 - sign
                else years1)"

text \<open>The month loop; the fuel is the number of whole days, more than the passes it can
  make.\<close>

fun months_loop :: "nat \<Rightarrow> int \<Rightarrow> int \<Rightarrow> int \<Rightarrow> plain_date \<Rightarrow> error + int \<times> int \<times> int" where
  "months_loop 0 dir months days relativeTo =
     (let later = add_years_months relativeTo 0 dir
      in if date_in_range later then Inr (months, days, daysUntil relativeTo later)
         else Inl RangeError)"
| "months_loop (Suc fuel) dir months days relativeTo =
     (let later = add_years_months relativeTo 0 dir
      in if \<not> date_in_range later then Inl RangeError
         else
           let oneMonthDays = daysUntil relativeTo later
           in if \<bar>days\<bar> \<ge> \<bar>oneMonthDays\<bar>
              then months_loop fuel dir (months + sgn days) (days - oneMonthDays) later
              else Inr (months, days, oneMonthDays))"

definition unit_nanoseconds :: "rtf_unit \<Rightarrow> int" where
  "unit_nanoseconds u =
     (case u of Seconds \<Rightarrow> 1000000000 | Minutes \<Rightarrow> 60000000000 | Hours \<Rightarrow> 3600000000000
              | Days \<Rightarrow> 86400000000000 | Weeks \<Rightarrow> 604800000000000 | _ \<Rightarrow> 0)"

text \<open>The whole units, and the rest as a number of nanoseconds over the nanoseconds of
  the unit that follows.\<close>

definition calendar_unit :: "rtf_unit \<Rightarrow> bool" where
  "calendar_unit u = (u = Years \<or> u = Months \<or> u = Weeks \<or> u = Days)"

definition utc_total_fraction ::
  "duration \<Rightarrow> rtf_unit \<Rightarrow> zoned_date_time \<Rightarrow> error + int \<times> int \<times> int" where
  "utc_total_fraction dur unit relativeTo =
     (let ns = duration_nanoseconds dur;
          start = zdt_epochNanoseconds relativeTo
      in if \<bar>start + ns\<bar> > nsMaxInstant then Inl RangeError
         else
           let days = tdiv ns nsPerDay;
               rest = ns - days * nsPerDay;
               date = civil_from_days (start div nsPerDay);
               dir = (if days < 0 then - 1 else 1)
           in if calendar_unit unit \<and> ns \<noteq> 0
                 \<and> \<bar>start + (days + sgn ns) * nsPerDay\<bar> > nsMaxInstant
              then Inl RangeError
              else
                case unit of
                  Years \<Rightarrow>
                    (let later = civil_from_days (epochDays date + days);
                         yearsPassed = difference_years date later;
                         moved = add_years_months date yearsPassed 0;
                         days1 = days - daysUntil date moved;
                         next = add_years_months moved (if days1 < 0 then - 1 else 1) 0
                     in if date_in_range next
                        then Inr (yearsPassed, days1 * nsPerDay + rest,
                                  \<bar>daysUntil moved next\<bar> * nsPerDay)
                        else Inl RangeError)
                | Months \<Rightarrow>
                    (case months_loop (nat \<bar>days\<bar>) dir 0 days date of
                       Inl e \<Rightarrow> Inl e
                     | Inr (months, days1, oneMonthDays) \<Rightarrow>
                         Inr (months, days1 * nsPerDay + rest, \<bar>oneMonthDays\<bar> * nsPerDay))
                | Weeks \<Rightarrow>
                    (if date_in_range
                          (civil_from_days (epochDays date + 7 * dir * (\<bar>days\<bar> div 7 + 1)))
                     then Inr (0, ns, unit_nanoseconds unit)
                     else Inl RangeError)
                | _ \<Rightarrow> Inr (0, ns, unit_nanoseconds unit))"

definition utc_total :: duration_total where
  "utc_total dur unit relativeTo =
     (case utc_total_fraction dur unit relativeTo of
        Inl e \<Rightarrow> Inl e
      | Inr (whole, numerator, denominator) \<Rightarrow>
          Inr (real_of_int whole + real_of_int numerator / real_of_int denominator))"

section \<open>A model of the ISO 8601 parser for instants\<close>

text \<open>
  Modelled from the spec: \<open>Temporal.Instant.from\<close> is not in the repository. The spec
  gives the grammar of an instant as a date-time, \<open>YYYY-MM-DDTHH:MM:SS[.fraction]\<close>,
  followed by \<open>Z\<close> or a UTC offset \<open>\<plusminus>HH:MM\<close>; anything else fails.
\<close>

definition take_digits :: "nat \<Rightarrow> string \<Rightarrow> (int \<times> string) option" where
  "take_digits n s =
     (if n \<le> length s \<and> list_all is_digit (take n s)
      then Some (digits_value (take n s), drop n s) else None)"

definition expect :: "char \<Rightarrow> string \<Rightarrow> string option" where
  "expect c s = (case s of [] \<Rightarrow> None | x # r \<Rightarrow> if x = c then Some r else None)"

definition parse_date :: "string \<Rightarrow> (plain_date \<times> string) option" where
  "parse_date s =
     do { (y, r1) \<leftarrow> take_digits 4 s;
          r2 \<leftarrow> expect CHR ''-'' r1;
          (m, r3) \<leftarrow> take_digits 2 r2;
          r4 \<leftarrow> expect CHR ''-'' r3;
          (d, r5) \<leftarrow> take_digits 2 r4;
          let date = \<lparr>year = y, month = m, day = d\<rparr>;
          if valid_date date then Some (date, r5) else None }"

definition parse_fraction :: "string \<Rightarrow> (int \<times> string) option" where
  "parse_fraction s =
     (case s of
        [] \<Rightarrow> Some (0, [])
      | c # r \<Rightarrow>
          if c = CHR ''.''
          then (let ds = takeWhile is_digit r in
                if 1 \<le> length ds \<and> length ds \<le> 9
                then Some (digits_value ds * 10 ^ (9 - length ds), dropWhile is_digit r)
                else None)
          else Some (0, s))"

definition parse_time :: "string \<Rightarrow> (plain_time \<times> string) option" where
  "parse_time s =
     do { (h, r1) \<leftarrow> take_digits 2 s;
          r2 \<leftarrow> expect CHR '':'' r1;
          (mi, r3) \<leftarrow> take_digits 2 r2;
          r4 \<leftarrow> expect CHR '':'' r3;
          (se, r5) \<leftarrow> take_digits 2 r4;
          (f, r6) \<leftarrow> parse_fraction r5;
          if h \<le> 23 \<and> mi \<le> 59 \<and> se \<le> 59
          then Some (\<lparr>hour = h, minute = mi, second = se,
                      millisecond = f div 1000000,
                      microsecond = f div 1000 mod 1000,
                      nanosecond = f mod 1000\<rparr>, r6)
          else None }"

definition parse_offset :: "string \<Rightarrow> int option" where
  "parse_offset s =
     (if s = ''Z'' then Some 0
      else case s of
             [] \<Rightarrow> None
           | c # r \<Rightarrow>
               if c = CHR ''+'' \<or> c = CHR ''-''
               then do { (h, r1) \<leftarrow> take_digits 2 r;
                         r2 \<leftarrow> expect CHR '':'' r1;
                         (mi, r3) \<leftarrow> take_digits 2 r2;
                         if r3 = [] \<and> h \<le> 23 \<and> mi \<le> 59
                         then Some ((if c = CHR ''-'' then - 1 else 1)
                                    * (h * 3600000000000 + mi * 60000000000))
                         else None }
               else None)"

definition Instant_from_iso :: "string \<Rightarrow> error + instant" where
  "Instant_from_iso s =
     (case do { (date, r1) \<leftarrow> parse_date s;
                r2 \<leftarrow> expect CHR ''T'' r1;
                (time, r3) \<leftarrow> parse_time r2;
                off \<leftarrow> parse_offset r3;
                Some (wall_nanoseconds \<lparr>pdt_date = date, pdt_time = time\<rparr> - off) } of
        None \<Rightarrow> Inl RangeError
      | Some ns \<Rightarrow> if \<bar>ns\<bar> \<le> nsMaxInstant then Inr (Instant ns) else Inl RangeError)"

section \<open>An English \<open>Intl.RelativeTimeFormat\<close>\<close>

text \<open>
  The phrases of the English locales: with \<open>numeric: "always"\<close>, the number (grouped by
  thousands) and the unit, \<open>ago\<close> or \<open>in\<close>; with \<open>numeric: "auto"\<close>, a word of its own for
  -1, 0 and 1 where English has one.
\<close>

fun group_thousands :: "string \<Rightarrow> string" where
  "group_thousands (a # b # c # d # r) = a # b # c # CHR '','' # group_thousands (d # r)"
| "group_thousands s = s"

definition format_number_en :: "int \<Rightarrow> string" where
  "format_number_en n = rev (group_thousands (rev (string_of_nonneg n)))"

definition unit_name_en :: "rtf_unit \<Rightarrow> string" where
  "unit_name_en u =
     (case u of Years \<Rightarrow> ''year'' | Months \<Rightarrow> ''month'' | Weeks \<Rightarrow> ''week'' | Days \<Rightarrow> ''day''
              | Hours \<Rightarrow> ''hour'' | Minutes \<Rightarrow> ''minute'' | Seconds \<Rightarrow> ''second'')"

definition auto_phrase_en :: "int \<Rightarrow> rtf_unit \<Rightarrow> string option" where
  "auto_phrase_en v u =
     (if v = 0 then
        (case u of Seconds \<Rightarrow> Some ''now'' | Days \<Rightarrow> Some ''today''
                 | _ \<Rightarrow> Some (''this '' @ unit_name_en u))
      else if v = 1 then
        (case u of Days \<Rightarrow> Some ''tomorrow'' | Years \<Rightarrow> Some ''next year''
                 | Months \<Rightarrow> Some ''next month'' | Weeks \<Rightarrow> Some ''next week'' | _ \<Rightarrow> None)
      else if v = - 1 then
        (case u of Days \<Rightarrow> Some ''yesterday'' | Years \<Rightarrow> Some ''last year''
                 | Months \<Rightarrow> Some ''last month'' | Weeks \<Rightarrow> Some ''last week'' | _ \<Rightarrow> None)
      else None)"

definition numeric_phrase_en :: "int \<Rightarrow> rtf_unit \<Rightarrow> string" where
  "numeric_phrase_en v u =
     (let n = format_number_en \<bar>v\<bar>;
          name = unit_name_en u @ (if \<bar>v\<bar> = 1 then [] else ''s'')
      in if v < 0 then n @ '' '' @ name @ '' ago'' else ''in '' @ n @ '' '' @ name)"

definition english_RelativeTimeFormat :: relative_time_format where
  "english_RelativeTimeFormat numeric v u =
     (case numeric of
        Always \<Rightarrow> numeric_phrase_en v u
      | Auto \<Rightarrow> (case auto_phrase_en v u of Some p \<Rightarrow> p | None \<Rightarrow> numeric_phrase_en v u))"

section \<open>A British host\<close>

text \<open>
  A host for the dated examples: its only locale is en-GB, which every request falls
  back to; its time zone is a fixed number of milliseconds ahead of UTC. A date is
  rendered with the fields that were asked for, as day, month, year separated by
  blanks. Two sets of fields have a pattern of their own: a day and a year without a
  month give the year followed by the day in brackets, \<open>2024 (day: 12)\<close>, and no field at
  all gives the numeric date, \<open>12/06/2024\<close>.
\<close>

definition month_long_en :: "string list" where
  "month_long_en = [''January'', ''February'', ''March'', ''April'', ''May'', ''June'', ''July'',
     ''August'', ''September'', ''October'', ''November'', ''December'']"

definition month_short_en_GB :: "string list" where
  "month_short_en_GB = [''Jan'', ''Feb'', ''Mar'', ''Apr'', ''May'', ''Jun'', ''Jul'', ''Aug'',
     ''Sept'', ''Oct'', ''Nov'', ''Dec'']"

fun intersperse :: "'a \<Rightarrow> 'a list \<Rightarrow> 'a list" where
  "intersperse sep [] = []"
| "intersperse sep [x] = [x]"
| "intersperse sep (x # y # ys) = x # sep # intersperse sep (y # ys)"

definition two_digits :: "int \<Rightarrow> string" where
  "two_digits v = (if v < 10 then CHR ''0'' # string_of_int v else string_of_int v)"

definition british_formatToParts :: "int \<Rightarrow> date_time_format" where
  "british_formatToParts host_offset_ms loc options t =
     (let d = civil_from_days ((t + host_offset_ms) div 86400000);
          dayPart = Part PartDay (string_of_int (day d));
          monthPart = (\<lambda>f. Part PartMonth
                         ((case f of MonthLong \<Rightarrow> month_long_en | MonthShort \<Rightarrow> month_short_en_GB)
                            ! nat (month d - 1)));
          yearPart = Part PartYear (string_of_int (if year d \<ge> 1 then year d else 1 - year d))
      in case (dtf_day options, dtf_month options, dtf_year options) of
           (None, None, None) \<Rightarrow>
             [Part PartDay (two_digits (day d)), Part PartLiteral ''/'',
              Part PartMonth (two_digits (month d)), Part PartLiteral ''/'', yearPart]
         | (Some _, None, Some _) \<Rightarrow>
             [yearPart, Part PartLiteral '' (day: '', dayPart, Part PartLiteral '')'']
         | (dayField, monthField, yearField) \<Rightarrow>
             intersperse (Part PartLiteral '' '')
               ((case dayField of None \<Rightarrow> [] | Some _ \<Rightarrow> [dayPart])
                @ (case monthField of None \<Rightarrow> [] | Some f \<Rightarrow> [monthPart f])
                @ (case yearField of None \<Rightarrow> [] | Some _ \<Rightarrow> [yearPart])))"

definition british_host :: "int \<Rightarrow> intl" where
  "british_host host_offset_ms =
     \<lparr>DateTimeFormat = Some (british_formatToParts host_offset_ms),
      RelativeTimeFormat = Some english_RelativeTimeFormat\<rparr>"

section \<open>Auxiliary notions of the proofs\<close>

text \<open>A rank that orders valid dates as the calendar does.\<close>

definition date_rank :: "plain_date \<Rightarrow> int" where
  "date_rank d = (year d * 12 + month d) * 32 + day d"

text \<open>The steps \<open>j\<close> in \<open>1..k\<close> after which the date is a business day.\<close>

definition qualifying :: "(plain_date \<Rightarrow> bool) \<Rightarrow> plain_date \<Rightarrow> nat \<Rightarrow> nat set" where
  "qualifying p d k = {j. 1 \<le> j \<and> j \<le> k \<and> p ((next_day ^^ j) d)}"

text \<open>The totals, unit by unit, of the two days before 2022-05-05T10:12:13Z.\<close>

definition two_days_ago_totals :: "nat \<Rightarrow> real" where
  "two_days_ago_totals j =
     (if j = 0 then - 172800000000000 / 31536000000000000
      else if j = 1 then - 172800000000000 / 2592000000000000
      else if j = 2 then - 172800000000000 / 604800000000000
      else if j = 3 then - 172800000000000 / 86400000000000
      else if j = 4 then - 172800000000000 / 3600000000000
      else if j = 5 then - 172800000000000 / 60000000000
      else - 172800000000000 / 1000000000)"

text \<open>A time-zone database that knows one zone, Japan, nine hours ahead of UTC all year.\<close>

definition japan_database :: tz_database where
  "japan_database tz =
     (if tz = ''Japan''
      then Some \<lparr>offsetNanosecondsFor = (\<lambda>_. 32400000000000),
                epochNanosecondsFor = (\<lambda>w. w - 32400000000000)\<rparr>
      else None)"

section \<open>Properties\<close>

lemma compare_int_before: "(compare_int a b = - 1) = (a < b)"
  by (simp add: compare_int_def)

text \<open>
  C5. Two intervals overlap exactly when each one's start is strictly before the other's
  end; an interval that starts where the other ends does not overlap it, and the two
  cases of the test table come out false and true.
\<close>

theorem areIntervalsOverlapping_half_open:
  "areIntervalsOverlapping \<lparr>iv_start = Instant s1, iv_end = Instant e1\<rparr>
                           \<lparr>iv_start = Instant s2, iv_end = Instant e2\<rparr>
     = (s1 < e2 \<and> s2 < e1)
   \<and> areIntervalsOverlapping \<lparr>iv_start = Instant s1, iv_end = Instant e1\<rparr>
                             \<lparr>iv_start = Instant e1, iv_end = Instant e2\<rparr> = False
   \<and> areIntervalsOverlapping
        \<lparr>iv_start = Instant 1657396800000000000, iv_end = Instant 1657404000000000000\<rparr>
        \<lparr>iv_start = Instant 1657404000000000000, iv_end = Instant 1657414800000000000\<rparr> = False
   \<and> areIntervalsOverlapping
        \<lparr>iv_start = Instant 1657396800000000000, iv_end = Instant 1657404000000000000\<rparr>
        \<lparr>iv_start = Instant 1657393200000000000, iv_end = Instant 1657397400000000000\<rparr> = True"
  by (simp add: areIntervalsOverlapping_def isInstantBefore_def Instant_compare_def
      compare_int_before)

lemma ms_in_range: "\<bar>ns\<bar> \<le> nsMaxInstant \<Longrightarrow> \<bar>ns div 1000000\<bar> \<le> (8640000000000000::int)"
  unfolding nsMaxInstant_def by (simp add: abs_le_iff) linarith

subsection \<open>Instant and legacy date\<close>

text \<open>
  An instant one nanosecond after a whole second comes back from the legacy date without
  that nanosecond, and the legacy date of a zoned date-time holds whole milliseconds
  only: the conversion is not free of loss.
\<close>

theorem toInstant_toJSDateUTC_counterexample:
  "valid_instant (Instant 1651745533000000001)
   \<and> toInstant (toJSDateUTC (OfInstant (Instant 1651745533000000001)))
       = Inr (Instant 1651745533000000000)
   \<and> toInstant (toJSDateUTC (OfInstant (Instant 1651745533000000001)))
       \<noteq> Inr (Instant 1651745533000000001)
   \<and> toJSDateUTC (OfZoned \<lparr>zdt_epochNanoseconds = 1651745533000000001, timeZoneId = ''UTC''\<rparr>)
       = Date 1651745533000"
  by (simp add: valid_instant_def nsMaxInstant_def toInstant_def toJSDateUTC_def new_Date_def
      epochMilliseconds_def)

text \<open>
  C4, as amended. Converting an instant or a zoned date-time to a legacy date copies the
  epoch offset in whole milliseconds, rounded down: \<open>toInstant (toJSDateUTC i)\<close> is \<open>i\<close>
  without its part below a millisecond, and it is \<open>i\<close> exactly when the offset of \<open>i\<close> is a
  whole number of milliseconds. The other direction is exact: a valid legacy date
  becomes the instant of the same millisecond and comes back unchanged.
\<close>

theorem toInstant_toJSDateUTC_milliseconds:
  assumes "valid_instant i"
      and "\<bar>zdt_epochNanoseconds z\<bar> \<le> nsMaxInstant"
      and "\<bar>ms\<bar> \<le> 8640000000000000"
  shows "toInstant (toJSDateUTC (OfInstant i))
           = Inr (Instant (epochNanoseconds i - epochNanoseconds i mod 1000000))
       \<and> (toInstant (toJSDateUTC (OfInstant i)) = Inr i) = (epochNanoseconds i mod 1000000 = 0)
       \<and> toJSDateUTC (OfZoned z) = Date (zdt_epochNanoseconds z div 1000000)
       \<and> toInstant (Date ms) = Inr (Instant (ms * 1000000))
       \<and> toJSDateUTC (OfInstant (Instant (ms * 1000000))) = Date ms"
proof -
  have r: "\<bar>epochNanoseconds i div 1000000\<bar> \<le> (8640000000000000::int)"
    using assms(1) by (simp add: valid_instant_def ms_in_range)
  have e: "epochNanoseconds i div 1000000 * 1000000 = epochNanoseconds i - epochNanoseconds i mod 1000000"
    by (simp add: minus_mod_eq_div_mult)
  have a: "toInstant (toJSDateUTC (OfInstant i))
           = Inr (Instant (epochNanoseconds i - epochNanoseconds i mod 1000000))"
    using r e by (simp add: toInstant_def toJSDateUTC_def new_Date_def epochMilliseconds_def)
  then have b: "(toInstant (toJSDateUTC (OfInstant i)) = Inr i) = (epochNanoseconds i mod 1000000 = 0)"
    by (cases i) auto
  have c: "toJSDateUTC (OfZoned z) = Date (zdt_epochNanoseconds z div 1000000)"
    using ms_in_range [OF assms(2)] by (simp add: toJSDateUTC_def new_Date_def epochMilliseconds_def)
  have d: "toInstant (Date ms) = Inr (Instant (ms * 1000000))"
    by (simp add: toInstant_def)
  have f: "toJSDateUTC (OfInstant (Instant (ms * 1000000))) = Date ms"
    using assms(3) by (simp add: toJSDateUTC_def new_Date_def epochMilliseconds_def)
  from a b c d f show ?thesis by blast
qed

theorem toInstant_toJSDateUTC_milliseconds_witness:
  "valid_instant (Instant 1651745533123456789)
   \<and> toInstant (toJSDateUTC (OfInstant (Instant 1651745533123456789)))
       = Inr (Instant 1651745533123000000)
   \<and> toJSDateUTC (OfZoned \<lparr>zdt_epochNanoseconds = - 1, timeZoneId = ''UTC''\<rparr>) = Date (- 1)
   \<and> toJSDateUTC (OfInstant (Instant (1651745533123 * 1000000))) = Date 1651745533123"
proof -
  have v: "valid_instant (Instant 1651745533123456789)"
    by (simp add: valid_instant_def nsMaxInstant_def)
  have z: "\<bar>zdt_epochNanoseconds \<lparr>zdt_epochNanoseconds = - 1, timeZoneId = ''UTC''\<rparr>\<bar> \<le> nsMaxInstant"
    by (simp add: nsMaxInstant_def)
  have m: "\<bar>1651745533123 :: int\<bar> \<le> 8640000000000000" by simp
  show ?thesis
    using v toInstant_toJSDateUTC_milliseconds [OF v z m] by simp
qed

subsection \<open>Plain date-time to legacy date\<close>


subsection \<open>Optional parsers\<close>

text \<open>
  C8. Each of the five optional parsers returns the absent value for \<open>null\<close>, \<open>undefined\<close>
  and the empty string, whatever the base parser does; for a string that is not empty it
  returns what the base parser returns, its failure included.
\<close>

theorem parseOptional_absent_or_delegates:
  "parseOptionalPlainDate f1 Null = Inr None \<and> parseOptionalPlainDate f1 Undefined = Inr None
   \<and> parseOptionalPlainDate f1 (Str []) = Inr None
   \<and> parseOptionalPlainDateTime f2 Null = Inr None \<and> parseOptionalPlainDateTime f2 Undefined = Inr None
   \<and> parseOptionalPlainDateTime f2 (Str []) = Inr None
   \<and> parseOptionalZonedDateTime f3 Null = Inr None \<and> parseOptionalZonedDateTime f3 Undefined = Inr None
   \<and> parseOptionalZonedDateTime f3 (Str []) = Inr None
   \<and> parseOptionalInstant f4 Null = Inr None \<and> parseOptionalInstant f4 Undefined = Inr None
   \<and> parseOptionalInstant f4 (Str []) = Inr None
   \<and> parseOptionalPlainTime f5 Null = Inr None \<and> parseOptionalPlainTime f5 Undefined = Inr None
   \<and> parseOptionalPlainTime f5 (Str []) = Inr None
   \<and> (s \<noteq> [] \<longrightarrow>
        parseOptionalPlainDate f1 (Str s)
          = (case parsePlainDate f1 s of Inl e \<Rightarrow> Inl e | Inr v \<Rightarrow> Inr (Some v))
      \<and> parseOptionalPlainDateTime f2 (Str s)
          = (case parsePlainDateTime f2 s of Inl e \<Rightarrow> Inl e | Inr v \<Rightarrow> Inr (Some v))
      \<and> parseOptionalZonedDateTime f3 (Str s)
          = (case parseZonedDateTime f3 s of Inl e \<Rightarrow> Inl e | Inr v \<Rightarrow> Inr (Some v))
      \<and> parseOptionalInstant f4 (Str s)
          = (case parseInstant f4 s of Inl e \<Rightarrow> Inl e | Inr v \<Rightarrow> Inr (Some v))
      \<and> parseOptionalPlainTime f5 (Str s)
          = (case parsePlainTime f5 s of Inl e \<Rightarrow> Inl e | Inr v \<Rightarrow> Inr (Some v)))"
  by (simp add: parseOptionalPlainDate_def parseOptionalPlainDateTime_def
      parseOptionalZonedDateTime_def parseOptionalInstant_def parseOptionalPlainTime_def
      falsy_def map_sum_def split: sum.splits)

theorem parseOptional_absent_or_delegates_witness:
  "parseOptionalPlainDate
      (\<lambda>s. if s = ''2024-03-20'' then Inr \<lparr>year = 2024, month = 3, day = 20\<rparr> else Inl RangeError)
      (Str ''invalid-date'') = Inl RangeError
   \<and> parseOptionalPlainDate
      (\<lambda>s. if s = ''2024-03-20'' then Inr \<lparr>year = 2024, month = 3, day = 20\<rparr> else Inl RangeError)
      (Str ''2024-03-20'') = Inr (Some \<lparr>year = 2024, month = 3, day = 20\<rparr>)
   \<and> parseOptionalInstant (\<lambda>s. Inl RangeError) (Str ''invalid-instant'') = Inl RangeError"
  using parseOptional_absent_or_delegates
      [where s = "''invalid-date''"
         and ?f1.0 = "\<lambda>s. if s = ''2024-03-20'' then Inr \<lparr>year = 2024, month = 3, day = 20\<rparr>
                          else Inl RangeError"]
    parseOptional_absent_or_delegates
      [where s = "''2024-03-20''"
         and ?f1.0 = "\<lambda>s. if s = ''2024-03-20'' then Inr \<lparr>year = 2024, month = 3, day = 20\<rparr>
                          else Inl RangeError"]
    parseOptional_absent_or_delegates
      [where s = "''invalid-instant''" and ?f4.0 = "\<lambda>s. Inl RangeError"]
  by (simp add: parsePlainDate_def parseInstant_def)

subsection \<open>Stepping through the calendar\<close>

lemma daysInMonth_bounds: "28 \<le> daysInMonth y m \<and> daysInMonth y m \<le> 31"
  by (simp add: daysInMonth_def)

lemma valid_next_day: "valid_date d \<Longrightarrow> valid_date (next_day d)"
  using daysInMonth_bounds [of "year d" "month d + 1"] daysInMonth_bounds [of "year d + 1" 1]
  by (auto simp: valid_date_def next_day_def)

lemma rank_next_day: "valid_date d \<Longrightarrow> date_rank d < date_rank (next_day d)"
  using daysInMonth_bounds [of "year d" "month d"]
  by (auto simp: valid_date_def next_day_def date_rank_def)

lemma compare_rank:
  assumes "valid_date a" "valid_date b"
  shows "(PlainDate_compare a b \<noteq> 1) = (date_rank a \<le> date_rank b)"
proof -
  have a: "1 \<le> month a" "month a \<le> 12" "1 \<le> day a" "day a \<le> 31"
    using assms(1) daysInMonth_bounds [of "year a" "month a"] by (auto simp: valid_date_def)
  have b: "1 \<le> month b" "month b \<le> 12" "1 \<le> day b" "day b \<le> 31"
    using assms(2) daysInMonth_bounds [of "year b" "month b"] by (auto simp: valid_date_def)
  show ?thesis
    using a b by (auto simp: PlainDate_compare_def compare_int_def date_rank_def)
qed

lemma valid_min_max: "valid_date minPlainDate" "valid_date maxPlainDate"
  by (simp_all add: valid_date_def minPlainDate_def maxPlainDate_def daysInMonth_def)

lemma in_range_rank:
  "valid_date d \<Longrightarrow>
   date_in_range d = (date_rank minPlainDate \<le> date_rank d \<and> date_rank d \<le> date_rank maxPlainDate)"
  by (simp add: date_in_range_def compare_rank valid_min_max)

lemma add_one_day:
  "PlainDate_add_days d 1 = (if date_in_range (next_day d) then Inr (next_day d) else Inl RangeError)"
  by (simp add: PlainDate_add_days_def)

lemma skip_loop_terminates:
  "valid_date d \<Longrightarrow>
   \<exists>r. skip_loop p d = Some r \<and>
       (case r of Inl e \<Rightarrow> e = RangeError
                | Inr x \<Rightarrow> valid_date x \<and> p x)"
proof (induction d rule: measure_induct_rule [where f = "\<lambda>d. nat (date_rank maxPlainDate - date_rank d)"])
  case (less d)
  show ?case
  proof (cases "p d")
    case True
    then show ?thesis using less.prems by (subst skip_loop.simps) simp
  next
    case False
    show ?thesis
    proof (cases "date_in_range (next_day d)")
      case True
      have v: "valid_date (next_day d)" using less.prems by (rule valid_next_day)
      have "date_rank (next_day d) \<le> date_rank maxPlainDate"
        using True v by (simp add: in_range_rank)
      moreover have "date_rank d < date_rank (next_day d)" using less.prems by (rule rank_next_day)
      ultimately have "nat (date_rank maxPlainDate - date_rank (next_day d))
                     < nat (date_rank maxPlainDate - date_rank d)" by linarith
      from less.IH [OF this v] obtain r where
        "skip_loop p (next_day d) = Some r \<and> (case r of Inl e \<Rightarrow> e = RangeError | Inr x \<Rightarrow> valid_date x \<and> p x)"
        by blast
      then show ?thesis using False True by (subst skip_loop.simps) (simp add: add_one_day)
    next
      case False
      then show ?thesis using \<open>\<not> p d\<close> by (subst skip_loop.simps) (simp add: add_one_day)
    qed
  qed
qed

lemma for_loop_terminates:
  "valid_date d \<Longrightarrow>
   \<exists>r. for_loop p n i d = Some r \<and>
       (case r of Inl e \<Rightarrow> e = RangeError
                | Inr x \<Rightarrow> valid_date x \<and> (i \<le> n \<longrightarrow> p x))"
proof (induction "nat (n + 1 - i)" arbitrary: i d)
  case 0
  then have "\<not> i \<le> n" by linarith
  then show ?case using "0.prems" by (subst for_loop.simps) simp
next
  case (Suc m)
  then have le: "i \<le> n" by linarith
  show ?case
  proof (cases "date_in_range (next_day d)")
    case False
    then show ?thesis using le by (subst for_loop.simps) (simp add: add_one_day)
  next
    case True
    have v: "valid_date (next_day d)" using Suc.prems by (rule valid_next_day)
    from skip_loop_terminates [OF v, of p] obtain r where
      r: "skip_loop p (next_day d) = Some r"
         "case r of Inl e \<Rightarrow> e = RangeError | Inr x \<Rightarrow> valid_date x \<and> p x"
      by blast
    show ?thesis
    proof (cases r)
      case (Inl e)
      then show ?thesis using le True r by (subst for_loop.simps) (simp add: add_one_day)
    next
      case (Inr x)
      then have vx: "valid_date x" and px: "p x" using r(2) by simp_all
      have m: "m = nat (n + 1 - (i + 1))" using Suc.hyps(2) by linarith
      from Suc.hyps(1) [OF m vx] obtain r' where
        r': "for_loop p n (i + 1) x = Some r'"
            "case r' of Inl e \<Rightarrow> e = RangeError | Inr y \<Rightarrow> valid_date y \<and> (i + 1 \<le> n \<longrightarrow> p y)"
        by blast
      have eq: "for_loop p n i d = for_loop p n (i + 1) x"
        using le True r(1) Inr by (subst for_loop.simps) (simp add: add_one_day)
      have "i + 1 \<le> n \<or> r' = Inr x"
        using r'(1) by (subst (asm) for_loop.simps) (auto split: if_splits)
      then show ?thesis using eq r' px vx by (auto split: sum.splits)
    qed
  qed
qed

lemma valid_funpow_next: "valid_date d \<Longrightarrow> valid_date ((next_day ^^ j) d)"
  by (induction j) (simp_all add: valid_next_day)

lemma rank_funpow_mono:
  "valid_date d \<Longrightarrow> j \<le> k \<Longrightarrow> date_rank ((next_day ^^ j) d) \<le> date_rank ((next_day ^^ k) d)"
proof (induction k)
  case 0
  then show ?case by simp
next
  case (Suc k)
  show ?case
  proof (cases "j = Suc k")
    case True
    then show ?thesis by simp
  next
    case False
    then have "j \<le> k" using Suc.prems by simp
    then have "date_rank ((next_day ^^ j) d) \<le> date_rank ((next_day ^^ k) d)"
      using Suc by simp
    moreover have "date_rank ((next_day ^^ k) d) < date_rank (next_day ((next_day ^^ k) d))"
      using Suc.prems(1) by (intro rank_next_day valid_funpow_next)
    ultimately show ?thesis by simp
  qed
qed

lemma in_range_between:
  assumes "valid_date d" "date_in_range d" "date_in_range ((next_day ^^ k) d)" "j \<le> k"
  shows "date_in_range ((next_day ^^ j) d)"
proof -
  have "date_rank d \<le> date_rank ((next_day ^^ j) d)"
    using rank_funpow_mono [OF assms(1), of 0 j] by simp
  moreover have "date_rank ((next_day ^^ j) d) \<le> date_rank ((next_day ^^ k) d)"
    using rank_funpow_mono [OF assms(1) assms(4)] .
  ultimately show ?thesis
    using assms(1,2,3) by (simp add: in_range_rank valid_funpow_next)
qed

lemma skip_loop_first_hit:
  "\<forall>j<k. \<not> p ((next_day ^^ j) d) \<Longrightarrow> p ((next_day ^^ k) d) \<Longrightarrow>
   \<forall>j. 1 \<le> j \<and> j \<le> k \<longrightarrow> date_in_range ((next_day ^^ j) d) \<Longrightarrow>
   skip_loop p d = Some (Inr ((next_day ^^ k) d))"
proof (induction k arbitrary: d)
  case 0
  then show ?case by (subst skip_loop.simps) simp
next
  case (Suc k)
  have np: "\<not> p d" using Suc.prems(1) [rule_format, of 0] by simp
  have r: "date_in_range (next_day d)" using Suc.prems(3) [rule_format, of 1] by simp
  have a: "\<forall>j<k. \<not> p ((next_day ^^ j) (next_day d))"
  proof (intro allI impI)
    fix j assume "j < k"
    then have "\<not> p ((next_day ^^ Suc j) d)" using Suc.prems(1) by blast
    then show "\<not> p ((next_day ^^ j) (next_day d))" by (simp add: funpow_swap1)
  qed
  have b: "p ((next_day ^^ k) (next_day d))"
    using Suc.prems(2) by (simp add: funpow_swap1)
  have c: "\<forall>j. 1 \<le> j \<and> j \<le> k \<longrightarrow> date_in_range ((next_day ^^ j) (next_day d))"
  proof (intro allI impI)
    fix j assume "1 \<le> j \<and> j \<le> k"
    then have "1 \<le> Suc j \<and> Suc j \<le> Suc k" by simp
    then have "date_in_range ((next_day ^^ Suc j) d)" using Suc.prems(3) by blast
    then show "date_in_range ((next_day ^^ j) (next_day d))" by (simp add: funpow_swap1)
  qed
  have "skip_loop p (next_day d) = Some (Inr ((next_day ^^ k) (next_day d)))"
    using Suc.IH [OF a b c] .
  then show ?case using np r by (subst skip_loop.simps) (simp add: add_one_day funpow_swap1)
qed

lemma funpow_next_add: "(next_day ^^ a) ((next_day ^^ b) d) = (next_day ^^ (a + b)) d"
  by (simp add: funpow_add)

lemma finite_qualifying: "finite (qualifying p d k)"
  by (rule finite_subset [of _ "{..k}"]) (auto simp: qualifying_def)

lemma qualifying_split:
  assumes "1 \<le> k1" "k1 \<le> k" "p ((next_day ^^ k1) d)" "\<forall>j. 1 \<le> j \<and> j < k1 \<longrightarrow> \<not> p ((next_day ^^ j) d)"
  shows "card (qualifying p d k) = Suc (card (qualifying p ((next_day ^^ k1) d) (k - k1)))"
proof -
  have eq: "qualifying p d k = insert k1 ((\<lambda>j. j + k1) ` qualifying p ((next_day ^^ k1) d) (k - k1))"
  proof (intro set_eqI iffI)
    fix j assume j: "j \<in> qualifying p d k"
    then have "k1 \<le> j" using assms(4) by (auto simp: qualifying_def not_less [symmetric])
    show "j \<in> insert k1 ((\<lambda>j. j + k1) ` qualifying p ((next_day ^^ k1) d) (k - k1))"
    proof (cases "j = k1")
      case True then show ?thesis by simp
    next
      case False
      have "(next_day ^^ (j - k1)) ((next_day ^^ k1) d) = (next_day ^^ j) d"
        using \<open>k1 \<le> j\<close> by (simp add: funpow_next_add)
      then have "j - k1 \<in> qualifying p ((next_day ^^ k1) d) (k - k1)"
        using j \<open>k1 \<le> j\<close> False by (auto simp: qualifying_def)
      moreover have "j = (j - k1) + k1" using \<open>k1 \<le> j\<close> by simp
      ultimately show ?thesis by blast
    qed
  next
    fix j assume "j \<in> insert k1 ((\<lambda>j. j + k1) ` qualifying p ((next_day ^^ k1) d) (k - k1))"
    then show "j \<in> qualifying p d k"
      using assms(1,2,3) by (auto simp: qualifying_def funpow_next_add)
  qed
  have "k1 \<notin> (\<lambda>j. j + k1) ` qualifying p ((next_day ^^ k1) d) (k - k1)"
    by (auto simp: qualifying_def)
  moreover have "card ((\<lambda>j. j + k1) ` qualifying p ((next_day ^^ k1) d) (k - k1))
                 = card (qualifying p ((next_day ^^ k1) d) (k - k1))"
    by (rule card_image) (simp add: inj_on_def)
  ultimately show ?thesis
    unfolding eq by (simp add: finite_qualifying)
qed

lemma for_loop_counts:
  "valid_date d \<Longrightarrow> date_in_range d \<Longrightarrow> k = 0 \<or> p ((next_day ^^ k) d) \<Longrightarrow>
   card (qualifying p d k) = m \<Longrightarrow> nat (n + 1 - i) = m \<Longrightarrow>
   date_in_range ((next_day ^^ k) d) \<Longrightarrow>
   for_loop p n i d = Some (Inr ((next_day ^^ k) d))"
proof (induction m arbitrary: i d k)
  case 0
  have "k = 0"
  proof (rule ccontr)
    assume "k \<noteq> 0"
    then have "k \<in> qualifying p d k" using "0.prems"(3) by (simp add: qualifying_def)
    then show False using "0.prems"(4) finite_qualifying [of p d k] by auto
  qed
  moreover have "\<not> i \<le> n" using "0.prems"(5) by linarith
  ultimately show ?case by (subst for_loop.simps) simp
next
  case (Suc m)
  have le: "i \<le> n" using Suc.prems(5) by linarith
  have "qualifying p d k \<noteq> {}" using Suc.prems(4) by auto
  then obtain j0 where j0: "1 \<le> j0" "j0 \<le> k" "p ((next_day ^^ j0) d)"
    by (auto simp: qualifying_def)
  define k1 where "k1 = (LEAST j. 1 \<le> j \<and> p ((next_day ^^ j) d))"
  have k1: "1 \<le> k1 \<and> p ((next_day ^^ k1) d)"
    unfolding k1_def using j0 LeastI [of "\<lambda>j. 1 \<le> j \<and> p ((next_day ^^ j) d)" j0] by simp
  have k1_le: "k1 \<le> j0"
    unfolding k1_def using j0 Least_le [of "\<lambda>j. 1 \<le> j \<and> p ((next_day ^^ j) d)" j0] by simp
  have k1_least: "\<forall>j. 1 \<le> j \<and> j < k1 \<longrightarrow> \<not> p ((next_day ^^ j) d)"
  proof (intro allI impI)
    fix j assume j: "1 \<le> j \<and> j < k1"
    then have "\<not> (1 \<le> j \<and> p ((next_day ^^ j) d))"
      unfolding k1_def using not_less_Least [of j "\<lambda>j. 1 \<le> j \<and> p ((next_day ^^ j) d)"] by simp
    then show "\<not> p ((next_day ^^ j) d)" using j by simp
  qed
  have k1k: "k1 \<le> k" using k1_le j0(2) by simp
  have kpos: "k \<noteq> 0" using j0 by simp
  have r1: "date_in_range (next_day d)"
    using in_range_between [OF Suc.prems(1,2,6), of 1] j0 by simp
  have sk: "skip_loop p (next_day d) = Some (Inr ((next_day ^^ (k1 - 1)) (next_day d)))"
  proof (rule skip_loop_first_hit)
    show "\<forall>j<k1 - 1. \<not> p ((next_day ^^ j) (next_day d))"
    proof (intro allI impI)
      fix j assume "j < k1 - 1"
      then have "1 \<le> Suc j \<and> Suc j < k1" by simp
      then have "\<not> p ((next_day ^^ Suc j) d)" using k1_least by blast
      then show "\<not> p ((next_day ^^ j) (next_day d))" by (simp add: funpow_swap1)
    qed
    have "(next_day ^^ (k1 - 1)) (next_day d) = (next_day ^^ Suc (k1 - 1)) d"
      by (simp add: funpow_swap1)
    then show "p ((next_day ^^ (k1 - 1)) (next_day d))" using k1 by simp
    show "\<forall>j. 1 \<le> j \<and> j \<le> k1 - 1 \<longrightarrow> date_in_range ((next_day ^^ j) (next_day d))"
    proof (intro allI impI)
      fix j assume "1 \<le> j \<and> j \<le> k1 - 1"
      then have "Suc j \<le> k" using k1k k1 by arith
      then have "date_in_range ((next_day ^^ Suc j) d)"
        using in_range_between [OF Suc.prems(1,2,6)] by blast
      then show "date_in_range ((next_day ^^ j) (next_day d))" by (simp add: funpow_swap1)
    qed
  qed
  have e1: "(next_day ^^ (k1 - 1)) (next_day d) = (next_day ^^ k1) d"
    using k1 by (cases k1) (simp_all add: funpow_swap1)
  have step: "for_loop p n i d = for_loop p n (i + 1) ((next_day ^^ k1) d)"
    using le r1 sk e1 by (subst for_loop.simps) (simp add: add_one_day)
  have e2: "(next_day ^^ (k - k1)) ((next_day ^^ k1) d) = (next_day ^^ k) d"
    using k1k by (simp add: funpow_next_add)
  have c: "card (qualifying p ((next_day ^^ k1) d) (k - k1)) = m"
    using qualifying_split [OF _ k1k _ k1_least] k1 Suc.prems(4) by simp
  have "for_loop p n (i + 1) ((next_day ^^ k1) d)
        = Some (Inr ((next_day ^^ (k - k1)) ((next_day ^^ k1) d)))"
  proof (rule Suc.IH)
    show "valid_date ((next_day ^^ k1) d)" using Suc.prems(1) by (rule valid_funpow_next)
    show "date_in_range ((next_day ^^ k1) d)"
      using in_range_between [OF Suc.prems(1,2,6) k1k] .
    show "k - k1 = 0 \<or> p ((next_day ^^ (k - k1)) ((next_day ^^ k1) d))"
      using Suc.prems(3) kpos e2 by simp
    show "card (qualifying p ((next_day ^^ k1) d) (k - k1)) = m" by (rule c)
    show "nat (n + 1 - (i + 1)) = m" using Suc.prems(5) by linarith
    show "date_in_range ((next_day ^^ (k - k1)) ((next_day ^^ k1) d))"
      using Suc.prems(6) e2 by simp
  qed
  then show ?case using step e2 by simp
qed

text \<open>Conversely, a date that a loop returns was reached by such steps.\<close>

lemma skip_loop_sound:
  "valid_date d \<Longrightarrow> skip_loop p d = Some (Inr y) \<Longrightarrow>
   \<exists>j. y = (next_day ^^ j) d \<and> p y \<and> (\<forall>l<j. \<not> p ((next_day ^^ l) d))
       \<and> (\<forall>l. 1 \<le> l \<and> l \<le> j \<longrightarrow> date_in_range ((next_day ^^ l) d))"
proof (induction d rule: measure_induct_rule [where f = "\<lambda>d. nat (date_rank maxPlainDate - date_rank d)"])
  case (less d)
  show ?case
  proof (cases "p d")
    case True
    then have "y = d" using less.prems(2) by (subst (asm) skip_loop.simps) simp
    then have "y = (next_day ^^ 0) d \<and> p y \<and> (\<forall>l<0. \<not> p ((next_day ^^ l) d))
       \<and> (\<forall>l. 1 \<le> l \<and> l \<le> 0 \<longrightarrow> date_in_range ((next_day ^^ l) d))"
      using True by simp
    then show ?thesis by blast
  next
    case False
    have r: "date_in_range (next_day d)"
      using less.prems(2) False
      by (subst (asm) skip_loop.simps) (simp add: add_one_day split: if_splits)
    then have s: "skip_loop p (next_day d) = Some (Inr y)"
      using less.prems(2) False by (subst (asm) skip_loop.simps) (simp add: add_one_day)
    have v: "valid_date (next_day d)" using less.prems(1) by (rule valid_next_day)
    have "date_rank (next_day d) \<le> date_rank maxPlainDate"
      using r v by (simp add: in_range_rank)
    moreover have "date_rank d < date_rank (next_day d)" using less.prems(1) by (rule rank_next_day)
    ultimately have "nat (date_rank maxPlainDate - date_rank (next_day d))
                   < nat (date_rank maxPlainDate - date_rank d)" by linarith
    from less.IH [OF this v s] obtain j where
      j: "y = (next_day ^^ j) (next_day d)" "p y" "\<forall>l<j. \<not> p ((next_day ^^ l) (next_day d))"
         "\<forall>l. 1 \<le> l \<and> l \<le> j \<longrightarrow> date_in_range ((next_day ^^ l) (next_day d))"
      by blast
    have a: "y = (next_day ^^ Suc j) d" using j(1) by (simp add: funpow_swap1)
    have b: "\<forall>l<Suc j. \<not> p ((next_day ^^ l) d)"
    proof (intro allI impI)
      fix l assume l: "l < Suc j"
      show "\<not> p ((next_day ^^ l) d)"
      proof (cases l)
        case 0
        then show ?thesis using False by simp
      next
        case (Suc l')
        then have "\<not> p ((next_day ^^ l') (next_day d))" using l j(3) by simp
        then show ?thesis using Suc by (simp add: funpow_swap1)
      qed
    qed
    have c: "\<forall>l. 1 \<le> l \<and> l \<le> Suc j \<longrightarrow> date_in_range ((next_day ^^ l) d)"
    proof (intro allI impI)
      fix l assume l: "1 \<le> l \<and> l \<le> Suc j"
      then obtain l' where l': "l = Suc l'" by (cases l) auto
      show "date_in_range ((next_day ^^ l) d)"
      proof (cases "l' = 0")
        case True
        then show ?thesis using r l' by simp
      next
        case False
        then have "date_in_range ((next_day ^^ l') (next_day d))" using l l' j(4) by simp
        then show ?thesis using l' by (simp add: funpow_swap1)
      qed
    qed
    show ?thesis using a j(2) b c by blast
  qed
qed

lemma for_loop_sound:
  "valid_date d \<Longrightarrow> for_loop p n i d = Some (Inr x) \<Longrightarrow>
   \<exists>k. x = (next_day ^^ k) d \<and> (k = 0 \<or> p x) \<and> card (qualifying p d k) = nat (n + 1 - i)
       \<and> (\<forall>l. 1 \<le> l \<and> l \<le> k \<longrightarrow> date_in_range ((next_day ^^ l) d))"
proof (induction "nat (n + 1 - i)" arbitrary: i d)
  case 0
  then have "\<not> i \<le> n" by linarith
  then have "x = d" using "0.prems"(2) by (subst (asm) for_loop.simps) simp
  moreover have "qualifying p d 0 = {}" by (auto simp: qualifying_def)
  ultimately have "x = (next_day ^^ 0) d \<and> (0 = (0::nat) \<or> p x)
       \<and> card (qualifying p d 0) = nat (n + 1 - i)
       \<and> (\<forall>l. 1 \<le> l \<and> l \<le> 0 \<longrightarrow> date_in_range ((next_day ^^ l) d))"
    using "0.hyps" by simp
  then show ?case by blast
next
  case (Suc m)
  then have le: "i \<le> n" by linarith
  have r: "date_in_range (next_day d)"
    using Suc.prems(2) le
    by (subst (asm) for_loop.simps) (simp add: add_one_day split: if_splits)
  have v: "valid_date (next_day d)" using Suc.prems(1) by (rule valid_next_day)
  from skip_loop_terminates [OF v, of p] obtain s where
    s: "skip_loop p (next_day d) = Some s" by blast
  have "\<exists>y. s = Inr y \<and> for_loop p n (i + 1) y = Some (Inr x)"
    using Suc.prems(2) le r s
    by (subst (asm) for_loop.simps) (simp add: add_one_day split: sum.splits)
  then obtain y where y: "skip_loop p (next_day d) = Some (Inr y)"
      "for_loop p n (i + 1) y = Some (Inr x)"
    using s by blast
  from skip_loop_sound [OF v y(1)] obtain j where
    j: "y = (next_day ^^ j) (next_day d)" "p y" "\<forall>l<j. \<not> p ((next_day ^^ l) (next_day d))"
       "\<forall>l. 1 \<le> l \<and> l \<le> j \<longrightarrow> date_in_range ((next_day ^^ l) (next_day d))"
    by blast
  have y1: "y = (next_day ^^ Suc j) d" using j(1) by (simp add: funpow_swap1)
  have vy: "valid_date y" unfolding y1 using Suc.prems(1) by (rule valid_funpow_next)
  have m: "m = nat (n + 1 - (i + 1))" using Suc.hyps(2) by linarith
  from Suc.hyps(1) [OF m vy y(2)] obtain k where
    k: "x = (next_day ^^ k) y" "k = 0 \<or> p x" "card (qualifying p y k) = nat (n + 1 - (i + 1))"
       "\<forall>l. 1 \<le> l \<and> l \<le> k \<longrightarrow> date_in_range ((next_day ^^ l) y)"
    by blast
  have x: "x = (next_day ^^ (k + Suc j)) d" using k(1) y1 by (simp only: funpow_next_add)
  have px: "p x" using k(1,2) j(2) by auto
  have least: "\<forall>l. 1 \<le> l \<and> l < Suc j \<longrightarrow> \<not> p ((next_day ^^ l) d)"
  proof (intro allI impI)
    fix l assume l: "1 \<le> l \<and> l < Suc j"
    then obtain l' where l': "l = Suc l'" by (cases l) auto
    then have "\<not> p ((next_day ^^ l') (next_day d))" using l j(3) by simp
    then show "\<not> p ((next_day ^^ l) d)" using l' by (simp add: funpow_swap1)
  qed
  have py: "p ((next_day ^^ Suc j) d)" using j(2) y1 by simp
  have "card (qualifying p d (k + Suc j))
        = Suc (card (qualifying p ((next_day ^^ Suc j) d) (k + Suc j - Suc j)))"
    by (rule qualifying_split [OF _ _ py least]) simp_all
  then have c: "card (qualifying p d (k + Suc j)) = nat (n + 1 - i)"
    using k(3) y1 m Suc.hyps(2) by simp
  have rng: "\<forall>l. 1 \<le> l \<and> l \<le> k + Suc j \<longrightarrow> date_in_range ((next_day ^^ l) d)"
  proof (intro allI impI)
    fix l assume l: "1 \<le> l \<and> l \<le> k + Suc j"
    show "date_in_range ((next_day ^^ l) d)"
    proof (cases "l \<le> Suc j")
      case True
      obtain l' where l': "l = Suc l'" using l by (cases l) auto
      show ?thesis
      proof (cases "l' = 0")
        case True
        then show ?thesis using r l' by simp
      next
        case False
        then have "date_in_range ((next_day ^^ l') (next_day d))" using True l' j(4) by simp
        then show ?thesis using l' by (simp add: funpow_swap1)
      qed
    next
      case False
      then have "1 \<le> l - Suc j \<and> l - Suc j \<le> k" using l by arith
      then have "date_in_range ((next_day ^^ (l - Suc j)) y)" using k(4) by blast
      moreover have "(next_day ^^ (l - Suc j)) y = (next_day ^^ l) d"
        unfolding y1 funpow_next_add using False by simp
      ultimately show ?thesis by simp
    qed
  qed
  show ?case using x px c rng by blast
qed

subsection \<open>Today, tomorrow, yesterday\<close>

lemma PlainDate_compare_eq: "(PlainDate_compare a b = 0) = (a = b)"
  by (auto simp: PlainDate_compare_def compare_int_def)

text \<open>
  C6. \<open>isTomorrow d tz\<close> is \<open>isToday\<close> of \<open>d\<close> minus one day, \<open>isYesterday d tz\<close> is
  \<open>isToday\<close> of \<open>d\<close> plus one day (the date is shifted, not today, and a date that cannot
  be shifted fails), and \<open>isToday d tz\<close> holds exactly when \<open>d\<close> is \<open>todayLocal tz\<close>. The
  cases are those of the test suite, with the clock fixed at 2022-07-09T02:00Z and
  2022-07-09T20:00Z.
\<close>

theorem isTomorrow_isYesterday_shift_the_date:
  "isTomorrow clk tzdb d tz =
     (case PlainDate_subtract_days d 1 of Inl e \<Rightarrow> Inl e | Inr d' \<Rightarrow> isToday clk tzdb d' tz)
   \<and> isYesterday clk tzdb d tz =
     (case PlainDate_add_days d 1 of Inl e \<Rightarrow> Inl e | Inr d' \<Rightarrow> isToday clk tzdb d' tz)
   \<and> isToday clk tzdb d tz =
     (case todayLocal clk 0 tzdb tz of Inl e \<Rightarrow> Inl e | Inr today \<Rightarrow> Inr (d = today))
   \<and> PlainDate_subtract_days \<lparr>year = 2022, month = 7, day = 10\<rparr> 1
       = Inr \<lparr>year = 2022, month = 7, day = 9\<rparr>
   \<and> isTomorrow (fixed_clock (Instant 1657332000000000000)) japan_database
        \<lparr>year = 2022, month = 7, day = 10\<rparr> ''UTC'' = Inr True
   \<and> isTomorrow (fixed_clock (Instant 1657332000000000000)) japan_database
        \<lparr>year = 2022, month = 7, day = 9\<rparr> ''UTC'' = Inr False
   \<and> isYesterday (fixed_clock (Instant 1657396800000000000)) japan_database
        \<lparr>year = 2022, month = 7, day = 8\<rparr> ''UTC'' = Inr True
   \<and> isYesterday (fixed_clock (Instant 1657396800000000000)) japan_database
        \<lparr>year = 2022, month = 7, day = 9\<rparr> ''Japan'' = Inr True
   \<and> isToday (fixed_clock (Instant 1657396800000000000)) japan_database
        \<lparr>year = 2022, month = 7, day = 9\<rparr> ''Japan'' = Inr False
   \<and> isTomorrow (fixed_clock (Instant 1657332000000000000)) japan_database
        \<lparr>year = 2022, month = 7, day = 10\<rparr> ''Nowhere'' = Inl RangeError"
proof -
  have a: "isToday clk tzdb d tz =
     (case todayLocal clk 0 tzdb tz of Inl e \<Rightarrow> Inl e | Inr today \<Rightarrow> Inr (d = today))"
    by (simp add: isToday_def PlainDate_compare_eq split: sum.splits)
  have b: "PlainDate_subtract_days \<lparr>year = 2022, month = 7, day = 10\<rparr> 1
       = Inr \<lparr>year = 2022, month = 7, day = 9\<rparr>"
    by code_simp
  have c: "isTomorrow (fixed_clock (Instant 1657332000000000000)) japan_database
        \<lparr>year = 2022, month = 7, day = 10\<rparr> ''UTC'' = Inr True"
    by code_simp
  have d: "isTomorrow (fixed_clock (Instant 1657332000000000000)) japan_database
        \<lparr>year = 2022, month = 7, day = 9\<rparr> ''UTC'' = Inr False"
    by code_simp
  have e: "isYesterday (fixed_clock (Instant 1657396800000000000)) japan_database
        \<lparr>year = 2022, month = 7, day = 8\<rparr> ''UTC'' = Inr True"
    by code_simp
  have f: "isYesterday (fixed_clock (Instant 1657396800000000000)) japan_database
        \<lparr>year = 2022, month = 7, day = 9\<rparr> ''Japan'' = Inr True"
    by code_simp
  have g: "isToday (fixed_clock (Instant 1657396800000000000)) japan_database
        \<lparr>year = 2022, month = 7, day = 9\<rparr> ''Japan'' = Inr False"
    by code_simp
  have h: "isTomorrow (fixed_clock (Instant 1657332000000000000)) japan_database
        \<lparr>year = 2022, month = 7, day = 10\<rparr> ''Nowhere'' = Inl RangeError"
    by code_simp
  show ?thesis
    unfolding b c d e f g h using a by (simp add: isTomorrow_def isYesterday_def)
qed

subsection \<open>Business days\<close>

lemma addBusinessDays_examples:
  "addBusinessDays \<lparr>year = 2022, month = 8, day = 5\<rparr> 1 defaultIsBusinessDay
     = Some (Inr \<lparr>year = 2022, month = 8, day = 8\<rparr>)"
  "addBusinessDays \<lparr>year = 2022, month = 8, day = 5\<rparr> 3 defaultIsBusinessDay
     = Some (Inr \<lparr>year = 2022, month = 8, day = 10\<rparr>)"
  "addBusinessDays \<lparr>year = 2022, month = 8, day = 5\<rparr> 10 defaultIsBusinessDay
     = Some (Inr \<lparr>year = 2022, month = 8, day = 19\<rparr>)"
  by code_simp+

lemma addBusinessDays_last_days:
  "valid_date \<lparr>year = 275760, month = 9, day = 12\<rparr>"
  "date_in_range \<lparr>year = 275760, month = 9, day = 12\<rparr>"
  "dayOfWeek \<lparr>year = 275760, month = 9, day = 12\<rparr> = 5"
  "next_day \<lparr>year = 275760, month = 9, day = 12\<rparr> = maxPlainDate"
  "dayOfWeek maxPlainDate = 6"
  "\<not> date_in_range (next_day maxPlainDate)"
  by code_simp+

text \<open>
  275760-09-12 is a Friday in the range of \<open>PlainDate\<close>, and the last date, the day
  after it, is a Saturday: one business day after it there is no date, and the library
  throws.
\<close>

theorem addBusinessDays_range_counterexample:
  "valid_date \<lparr>year = 275760, month = 9, day = 12\<rparr>
   \<and> date_in_range \<lparr>year = 275760, month = 9, day = 12\<rparr>
   \<and> addBusinessDays \<lparr>year = 275760, month = 9, day = 12\<rparr> 1 defaultIsBusinessDay
       = Some (Inl RangeError)"
  by code_simp

text \<open>
  C2, as amended. For \<open>n \<ge> 1\<close>, \<open>addBusinessDays\<close> steps forward one calendar day at a
  time from the day after \<open>date\<close> and counts the days that satisfy the predicate. If the
  \<open>k\<close>-th day after \<open>date\<close> satisfies it, exactly \<open>n\<close> of the days \<open>1..k\<close> after \<open>date\<close> do,
  and that day is a date the library can hold, then it is the result. If there is no
  such day up to the last date the library can hold, the result is a \<open>RangeError\<close>.
  Adding one day is one step of \<open>next_day\<close>. For \<open>n \<le> 0\<close> the date comes back unchanged.
  With the default predicate, 2022-08-05 plus 1, 3 and 10 business days is 2022-08-08,
  2022-08-10 and 2022-08-19.
\<close>

theorem addBusinessDays_nth_business_day_or_RangeError:
  "(valid_date d \<and> date_in_range d \<and> 1 \<le> n \<and> 1 \<le> k \<and> p ((next_day ^^ k) d)
      \<and> card {j. 1 \<le> j \<and> j \<le> k \<and> p ((next_day ^^ j) d)} = nat n
      \<and> date_in_range ((next_day ^^ k) d)
     \<longrightarrow> addBusinessDays d n p = Some (Inr ((next_day ^^ k) d)))
   \<and> (valid_date d \<and> date_in_range d \<and> 1 \<le> n
      \<and> (\<forall>k. 1 \<le> k \<and> p ((next_day ^^ k) d)
              \<and> card {j. 1 \<le> j \<and> j \<le> k \<and> p ((next_day ^^ j) d)} = nat n
            \<longrightarrow> \<not> date_in_range ((next_day ^^ k) d))
     \<longrightarrow> addBusinessDays d n p = Some (Inl RangeError))
   \<and> (PlainDate_add_days d 1 = Inr d' \<longrightarrow> d' = next_day d)
   \<and> (n \<le> 0 \<longrightarrow> addBusinessDays d n p = Some (Inr d))
   \<and> addBusinessDays \<lparr>year = 2022, month = 8, day = 5\<rparr> 1 defaultIsBusinessDay
       = Some (Inr \<lparr>year = 2022, month = 8, day = 8\<rparr>)
   \<and> addBusinessDays \<lparr>year = 2022, month = 8, day = 5\<rparr> 3 defaultIsBusinessDay
       = Some (Inr \<lparr>year = 2022, month = 8, day = 10\<rparr>)
   \<and> addBusinessDays \<lparr>year = 2022, month = 8, day = 5\<rparr> 10 defaultIsBusinessDay
       = Some (Inr \<lparr>year = 2022, month = 8, day = 19\<rparr>)"
proof -
  have a: "addBusinessDays d n p = Some (Inr ((next_day ^^ k) d))"
    if "valid_date d \<and> date_in_range d \<and> 1 \<le> n \<and> 1 \<le> k \<and> p ((next_day ^^ k) d)
      \<and> card {j. 1 \<le> j \<and> j \<le> k \<and> p ((next_day ^^ j) d)} = nat n
      \<and> date_in_range ((next_day ^^ k) d)"
    unfolding addBusinessDays_def
    by (rule for_loop_counts [where m = "nat n"]) (use that in \<open>simp_all add: qualifying_def\<close>)
  have e: "addBusinessDays d n p = Some (Inl RangeError)"
    if h: "valid_date d \<and> date_in_range d \<and> 1 \<le> n
      \<and> (\<forall>k. 1 \<le> k \<and> p ((next_day ^^ k) d)
              \<and> card {j. 1 \<le> j \<and> j \<le> k \<and> p ((next_day ^^ j) d)} = nat n
            \<longrightarrow> \<not> date_in_range ((next_day ^^ k) d))"
  proof -
    from h have v: "valid_date d" and n: "1 \<le> n" by simp_all
    from for_loop_terminates [OF v, of p n 1] obtain r where
      r: "for_loop p n 1 d = Some r" "case r of Inl e \<Rightarrow> e = RangeError | Inr x \<Rightarrow> valid_date x \<and> (1 \<le> n \<longrightarrow> p x)"
      by blast
    have "r = Inl RangeError"
    proof (cases r)
      case (Inl e)
      then show ?thesis using r(2) by simp
    next
      case (Inr x)
      from for_loop_sound [OF v r(1) [unfolded Inr]] obtain k where
        k: "x = (next_day ^^ k) d" "k = 0 \<or> p x" "card (qualifying p d k) = nat (n + 1 - 1)"
           "\<forall>l. 1 \<le> l \<and> l \<le> k \<longrightarrow> date_in_range ((next_day ^^ l) d)"
        by blast
      have "qualifying p d 0 = {}" by (auto simp: qualifying_def)
      then have k1: "1 \<le> k" using k(3) n by (cases k) auto
      then have "p ((next_day ^^ k) d)" "date_in_range ((next_day ^^ k) d)"
        using k(1,2,4) by auto
      moreover have "card {j. 1 \<le> j \<and> j \<le> k \<and> p ((next_day ^^ j) d)} = nat n"
        using k(3) by (simp add: qualifying_def)
      ultimately have False using h k1 by blast
      then show ?thesis ..
    qed
    then show ?thesis using r(1) by (simp add: addBusinessDays_def)
  qed
  have b: "addBusinessDays d n p = Some (Inr d)" if "n \<le> 0"
    unfolding addBusinessDays_def using that by (subst for_loop.simps) simp
  have c: "d' = next_day d" if "PlainDate_add_days d 1 = Inr d'"
    using that by (simp add: add_one_day split: if_splits)
  show ?thesis using a e b c addBusinessDays_examples by blast
qed

theorem addBusinessDays_nth_business_day_or_RangeError_witness:
  "valid_date \<lparr>year = 2022, month = 8, day = 5\<rparr>
   \<and> date_in_range \<lparr>year = 2022, month = 8, day = 5\<rparr>
   \<and> {j. 1 \<le> j \<and> j \<le> 3 \<and> defaultIsBusinessDay ((next_day ^^ j) \<lparr>year = 2022, month = 8, day = 5\<rparr>)} = {3}
   \<and> (next_day ^^ 3) \<lparr>year = 2022, month = 8, day = 5\<rparr> = \<lparr>year = 2022, month = 8, day = 8\<rparr>
   \<and> addBusinessDays \<lparr>year = 2022, month = 8, day = 5\<rparr> 1 defaultIsBusinessDay
       = Some (Inr \<lparr>year = 2022, month = 8, day = 8\<rparr>)
   \<and> addBusinessDays \<lparr>year = 2022, month = 8, day = 5\<rparr> 0 defaultIsBusinessDay
       = Some (Inr \<lparr>year = 2022, month = 8, day = 5\<rparr>)
   \<and> addBusinessDays \<lparr>year = 2022, month = 8, day = 5\<rparr> (- 2) defaultIsBusinessDay
       = Some (Inr \<lparr>year = 2022, month = 8, day = 5\<rparr>)
   \<and> valid_date maxPlainDate \<and> date_in_range maxPlainDate
   \<and> \<not> date_in_range (next_day maxPlainDate)
   \<and> addBusinessDays maxPlainDate 2 defaultIsBusinessDay = Some (Inl RangeError)"
proof -
  let ?d = "\<lparr>year = 2022, month = 8, day = 5\<rparr>"
  have v: "valid_date ?d" by (simp add: valid_date_def daysInMonth_def)
  have r: "date_in_range ?d" by code_simp
  have n1: "(next_day ^^ 1) ?d = \<lparr>year = 2022, month = 8, day = 6\<rparr>" by code_simp
  have n2: "(next_day ^^ 2) ?d = \<lparr>year = 2022, month = 8, day = 7\<rparr>" by code_simp
  have n3: "(next_day ^^ 3) ?d = \<lparr>year = 2022, month = 8, day = 8\<rparr>" by code_simp
  have p1: "\<not> defaultIsBusinessDay \<lparr>year = 2022, month = 8, day = 6\<rparr>" by code_simp
  have p2: "\<not> defaultIsBusinessDay \<lparr>year = 2022, month = 8, day = 7\<rparr>" by code_simp
  have p3: "defaultIsBusinessDay \<lparr>year = 2022, month = 8, day = 8\<rparr>" by code_simp
  have r3: "date_in_range \<lparr>year = 2022, month = 8, day = 8\<rparr>" by code_simp
  have s: "{j. 1 \<le> j \<and> j \<le> 3 \<and> defaultIsBusinessDay ((next_day ^^ j) ?d)} = {3}"
  proof (intro set_eqI iffI)
    fix j assume "j \<in> {j. 1 \<le> j \<and> j \<le> 3 \<and> defaultIsBusinessDay ((next_day ^^ j) ?d)}"
    then have j: "1 \<le> j" "j \<le> 3" "defaultIsBusinessDay ((next_day ^^ j) ?d)" by simp_all
    then have "j = 1 \<or> j = 2 \<or> j = 3" by linarith
    then show "j \<in> {3}" using j(3) n1 n2 p1 p2 by auto
  next
    fix j :: nat assume "j \<in> {3}"
    then show "j \<in> {j. 1 \<le> j \<and> j \<le> 3 \<and> defaultIsBusinessDay ((next_day ^^ j) ?d)}"
      using n3 p3 by simp
  qed
  have h: "valid_date ?d \<and> date_in_range ?d \<and> (1::int) \<le> 1 \<and> (1::nat) \<le> 3
      \<and> defaultIsBusinessDay ((next_day ^^ 3) ?d)
      \<and> card {j. 1 \<le> j \<and> j \<le> 3 \<and> defaultIsBusinessDay ((next_day ^^ j) ?d)} = nat 1
      \<and> date_in_range ((next_day ^^ 3) ?d)"
    using v r s n3 p3 r3 by simp
  have z: "(0::int) \<le> 0" "(- 2::int) \<le> 0" by simp_all
  have vm: "valid_date maxPlainDate" by (rule valid_min_max)
  have rm: "date_in_range maxPlainDate" by code_simp
  have om: "\<not> date_in_range (next_day maxPlainDate)" by (rule addBusinessDays_last_days)
  have beyond: "\<not> date_in_range ((next_day ^^ k) maxPlainDate)" if "1 \<le> k" for k
  proof
    assume "date_in_range ((next_day ^^ k) maxPlainDate)"
    from in_range_between [OF vm rm this that] show False using om by simp
  qed
  have g: "valid_date maxPlainDate \<and> date_in_range maxPlainDate \<and> (1::int) \<le> 2
      \<and> (\<forall>k. 1 \<le> k \<and> defaultIsBusinessDay ((next_day ^^ k) maxPlainDate)
              \<and> card {j. 1 \<le> j \<and> j \<le> k \<and> defaultIsBusinessDay ((next_day ^^ j) maxPlainDate)} = nat 2
            \<longrightarrow> \<not> date_in_range ((next_day ^^ k) maxPlainDate))"
    using vm rm beyond by simp
  show ?thesis
    using v r s n3 vm rm om
      addBusinessDays_nth_business_day_or_RangeError [of ?d 1 3 defaultIsBusinessDay, THEN conjunct1, rule_format, OF h]
      addBusinessDays_nth_business_day_or_RangeError [of maxPlainDate 2 _ defaultIsBusinessDay, THEN conjunct2, THEN conjunct1, rule_format, OF g]
      addBusinessDays_nth_business_day_or_RangeError [of ?d 0 3 defaultIsBusinessDay, THEN conjunct2, THEN conjunct2, THEN conjunct2, THEN conjunct1, rule_format, OF z(1)]
      addBusinessDays_nth_business_day_or_RangeError [of ?d "- 2" 3 defaultIsBusinessDay, THEN conjunct2, THEN conjunct2, THEN conjunct2, THEN conjunct1, rule_format, OF z(2)]
    by simp
qed

lemma addBusinessDays_total:
  "valid_date d \<Longrightarrow> \<exists>r. addBusinessDays d n p = Some r"
  unfolding addBusinessDays_def using for_loop_terminates [of d p n 1] by blast

lemma addBusinessDays_rejecting:
  assumes "valid_date d" "1 \<le> n"
  shows "addBusinessDays d n (\<lambda>_. False) = Some (Inl RangeError)"
proof -
  from for_loop_terminates [OF assms(1), of "\<lambda>_. False" n 1] obtain r where
    r: "for_loop (\<lambda>_. False) n 1 d = Some r"
       "case r of Inl e \<Rightarrow> e = RangeError | Inr x \<Rightarrow> valid_date x \<and> (1 \<le> n \<longrightarrow> False)"
    by blast
  then have "r = Inl RangeError" using assms(2) by (cases r) simp_all
  then show ?thesis using r(1) by (simp add: addBusinessDays_def)
qed

text \<open>
  With a predicate that refuses every day and \<open>n = 1\<close> the function does return: the
  stepping leaves the range of \<open>PlainDate\<close> and the library throws.
\<close>

theorem addBusinessDays_rejecting_counterexample:
  "valid_date \<lparr>year = 2022, month = 8, day = 5\<rparr>
   \<and> addBusinessDays \<lparr>year = 2022, month = 8, day = 5\<rparr> 1 (\<lambda>_. False) = Some (Inl RangeError)
   \<and> addBusinessDays \<lparr>year = 2022, month = 8, day = 5\<rparr> 1 (\<lambda>_. False) \<noteq> None"
proof -
  have v: "valid_date \<lparr>year = 2022, month = 8, day = 5\<rparr>"
    by (simp add: valid_date_def daysInMonth_def)
  show ?thesis using v addBusinessDays_rejecting [OF v, of 1] by simp
qed

text \<open>
  C10, as amended. \<open>addBusinessDays\<close> terminates for every date, every \<open>n\<close> and every
  predicate, the default one included, with or without a business day in every run of
  seven days: each step moves the date forward and the dates of the library end at
  +275760-09-13. With a predicate that refuses every day and \<open>n \<ge> 1\<close> it terminates with
  a \<open>RangeError\<close>.
\<close>

theorem addBusinessDays_terminates_by_range:
  "(valid_date d \<longrightarrow> (\<exists>r. addBusinessDays d n p = Some r))
   \<and> (valid_date d \<longrightarrow> (\<exists>r. addBusinessDays d n defaultIsBusinessDay = Some r))
   \<and> (valid_date d \<and> 1 \<le> n \<longrightarrow> addBusinessDays d n (\<lambda>_. False) = Some (Inl RangeError))"
  using addBusinessDays_total addBusinessDays_rejecting by blast

theorem addBusinessDays_terminates_by_range_witness:
  "valid_date \<lparr>year = 275760, month = 9, day = 12\<rparr>
   \<and> (\<exists>r. addBusinessDays \<lparr>year = 275760, month = 9, day = 12\<rparr> 5 defaultIsBusinessDay = Some r)
   \<and> addBusinessDays \<lparr>year = 275760, month = 9, day = 12\<rparr> 1 (\<lambda>_. False) = Some (Inl RangeError)"
proof -
  have v: "valid_date \<lparr>year = 275760, month = 9, day = 12\<rparr>"
    by (simp add: valid_date_def daysInMonth_def)
  show ?thesis
    using v addBusinessDays_terminates_by_range [of "\<lparr>year = 275760, month = 9, day = 12\<rparr>" 5 defaultIsBusinessDay]
      addBusinessDays_terminates_by_range [of "\<lparr>year = 275760, month = 9, day = 12\<rparr>" 1 defaultIsBusinessDay]
    by simp
qed

subsection \<open>Date ranges\<close>











subsection \<open>Relative time\<close>

lemma nowLocal_UTC:
  "nowLocal clk k tzdb ''UTC''
     = Inr \<lparr>zdt_epochNanoseconds = epochNanoseconds (clk k), timeZoneId = ''UTC''\<rparr>"
  by (simp add: nowLocal_def toZonedDateTimeISO_def resolve_zone_def now_def)

lemma units_loop_cascade:
  assumes "\<forall>j<length us. T dur (us ! j)
             \<lparr>zdt_epochNanoseconds = epochNanoseconds (clk (k + j)), timeZoneId = ''UTC''\<rparr>
           = Inr (x j)"
  shows "(n < length us \<and> (\<forall>j<n. Math_trunc (x j) = 0) \<and> Math_trunc (x n) \<noteq> 0 \<longrightarrow>
            units_loop f g T clk tzdb dur k us = Inr (f (Math_trunc (x n)) (us ! n)))
       \<and> ((\<forall>j<length us. Math_trunc (x j) = 0) \<longrightarrow>
            units_loop f g T clk tzdb dur k us = Inr (g 0 Seconds))"
  using assms
proof (induction us arbitrary: k x n)
  case Nil
  then show ?case by simp
next
  case (Cons u us)
  have h: "T dur u \<lparr>zdt_epochNanoseconds = epochNanoseconds (clk k), timeZoneId = ''UTC''\<rparr>
           = Inr (x 0)"
    using Cons.prems [rule_format, of 0] by simp
  have t: "\<forall>j<length us. T dur (us ! j)
             \<lparr>zdt_epochNanoseconds = epochNanoseconds (clk (Suc k + j)), timeZoneId = ''UTC''\<rparr>
           = Inr (x (Suc j))"
  proof (intro allI impI)
    fix j assume "j < length us"
    then have "Suc j < length (u # us)" by simp
    from Cons.prems [rule_format, OF this] show "T dur (us ! j)
             \<lparr>zdt_epochNanoseconds = epochNanoseconds (clk (Suc k + j)), timeZoneId = ''UTC''\<rparr>
           = Inr (x (Suc j))" by simp
  qed
  note ih = Cons.IH [of "Suc k" "\<lambda>j. x (Suc j)", OF t]
  show ?case
  proof (cases "Math_trunc (x 0) = 0")
    case False
    have r: "units_loop f g T clk tzdb dur k (u # us) = Inr (f (Math_trunc (x 0)) u)"
      using False by (simp add: nowLocal_UTC h)
    have "n = 0" if "\<forall>j<n. Math_trunc (x j) = 0"
      using that False by (cases n) auto
    then show ?thesis using r False by auto
  next
    case True
    have r: "units_loop f g T clk tzdb dur k (u # us) = units_loop f g T clk tzdb dur (Suc k) us"
      using True by (simp add: nowLocal_UTC h)
    have a: "units_loop f g T clk tzdb dur (Suc k) us = Inr (f (Math_trunc (x n)) ((u # us) ! n))"
      if n: "n < length (u # us)" "\<forall>j<n. Math_trunc (x j) = 0" "Math_trunc (x n) \<noteq> 0"
    proof -
      from n(3) True obtain m where m: "n = Suc m" by (cases n) auto
      have "m < length us \<and> (\<forall>j<m. Math_trunc (x (Suc j)) = 0) \<and> Math_trunc (x (Suc m)) \<noteq> 0"
        using n m by auto
      then show ?thesis using ih [of m] m by simp
    qed
    have b: "units_loop f g T clk tzdb dur (Suc k) us = Inr (g 0 Seconds)"
      if "\<forall>j<length (u # us). Math_trunc (x j) = 0"
    proof -
      have "\<forall>j<length us. Math_trunc (x (Suc j)) = 0" using that by auto
      then show ?thesis using ih [of 0] by simp
    qed
    show ?thesis using r a b by simp
  qed
qed

lemma duration_since:
  "duration_nanoseconds (Instant_since i other) = epochNanoseconds i - epochNanoseconds other"
  by (simp add: duration_nanoseconds_def Instant_since_def Let_def algebra_simps)

lemma Math_trunc_toward_zero: "Math_trunc x = (if x < 0 then - \<lfloor>- x\<rfloor> else \<lfloor>x\<rfloor>)"
  by (simp add: Math_trunc_def ceiling_def)

lemma formatRelativeInstant_cascade:
  assumes "RelativeTimeFormat host = Some new"
      and "\<forall>j<7. T (Instant_since i (clk 0)) (units ! j)
             \<lparr>zdt_epochNanoseconds = epochNanoseconds (clk (Suc j)), timeZoneId = ''UTC''\<rparr>
           = Inr (x j)"
  shows "(n < 7 \<and> (\<forall>j<n. Math_trunc (x j) = 0) \<and> Math_trunc (x n) \<noteq> 0 \<longrightarrow>
            formatRelativeInstant host T clk tzdb i = Inr (new Always (Math_trunc (x n)) (units ! n)))
       \<and> ((\<forall>j<7. Math_trunc (x j) = 0) \<longrightarrow>
            formatRelativeInstant host T clk tzdb i = Inr (new Auto 0 Seconds))"
proof -
  have l: "length units = 7" by (simp add: units_def)
  have e: "formatRelativeInstant host T clk tzdb i
           = units_loop (new Always) (new Auto) T clk tzdb (Instant_since i (clk 0)) 1 units"
    using assms(1) by (simp add: formatRelativeInstant_def rtf_def rtfNumeric_def now_def)
  have "\<forall>j<length units. T (Instant_since i (clk 0)) (units ! j)
             \<lparr>zdt_epochNanoseconds = epochNanoseconds (clk (1 + j)), timeZoneId = ''UTC''\<rparr>
           = Inr (x j)"
    using assms(2) l by simp
  then show ?thesis
    using units_loop_cascade [where us = units and T = T and dur = "Instant_since i (clk 0)"
        and clk = clk and k = 1 and x = x and n = n and f = "new Always" and g = "new Auto"
        and tzdb = tzdb]
    unfolding e l by blast
qed

lemma british_rtf: "RelativeTimeFormat (british_host h) = Some english_RelativeTimeFormat"
  by (simp add: british_host_def)

lemma relative_example_units:
  "units ! 0 = Years" "units ! Suc 0 = Months" "units ! 2 = Weeks" "units ! 3 = Days"
  "units ! 4 = Hours" "units ! 5 = Minutes" "units ! 6 = Seconds"
  by (simp_all add: units_def)

lemma less_7_cases: "j < (7::nat) \<Longrightarrow> j = 0 \<or> j = 1 \<or> j = 2 \<or> j = 3 \<or> j = 4 \<or> j = 5 \<or> j = 6"
  by linarith

lemma two_days_ago_parse:
  "Instant_from_iso ''2022-05-03T10:12:13Z'' = Inr (Instant 1651572733000000000)"
  by code_simp

lemma two_days_ago_totals_utc:
  "\<forall>j<7. utc_total (Instant_since (Instant 1651572733000000000)
                     (fixed_clock (Instant 1651745533000000000) 0)) (units ! j)
             \<lparr>zdt_epochNanoseconds = epochNanoseconds (fixed_clock (Instant 1651745533000000000) (Suc j)),
              timeZoneId = ''UTC''\<rparr>
           = Inr (two_days_ago_totals j)"
proof -
  let ?rel = "\<lparr>zdt_epochNanoseconds = 1651745533000000000, timeZoneId = ''UTC''\<rparr>"
  let ?dur = "\<lparr>dur_seconds = - 172800, dur_milliseconds = 0, dur_microseconds = 0,
               dur_nanoseconds = 0\<rparr>"
  have s: "Instant_since (Instant 1651572733000000000) (fixed_clock (Instant 1651745533000000000) 0)
           = ?dur"
    by code_simp
  have f: "utc_total_fraction ?dur Years ?rel = Inr (0, - 172800000000000, 31536000000000000)"
          "utc_total_fraction ?dur Months ?rel = Inr (0, - 172800000000000, 2592000000000000)"
          "utc_total_fraction ?dur Weeks ?rel = Inr (0, - 172800000000000, 604800000000000)"
          "utc_total_fraction ?dur Days ?rel = Inr (0, - 172800000000000, 86400000000000)"
          "utc_total_fraction ?dur Hours ?rel = Inr (0, - 172800000000000, 3600000000000)"
          "utc_total_fraction ?dur Minutes ?rel = Inr (0, - 172800000000000, 60000000000)"
          "utc_total_fraction ?dur Seconds ?rel = Inr (0, - 172800000000000, 1000000000)"
    by code_simp+
  show ?thesis
  proof (intro allI impI)
    fix j :: nat assume "j < 7"
    then have "j = 0 \<or> j = 1 \<or> j = 2 \<or> j = 3 \<or> j = 4 \<or> j = 5 \<or> j = 6" by (rule less_7_cases)
    then show "utc_total (Instant_since (Instant 1651572733000000000)
                     (fixed_clock (Instant 1651745533000000000) 0)) (units ! j)
             \<lparr>zdt_epochNanoseconds = epochNanoseconds (fixed_clock (Instant 1651745533000000000) (Suc j)),
              timeZoneId = ''UTC''\<rparr>
           = Inr (two_days_ago_totals j)"
      unfolding s
      by (elim disjE)
         (simp_all add: relative_example_units fixed_clock_def utc_total_def f two_days_ago_totals_def)
  qed
qed

lemma two_days_ago_truncated:
  "\<forall>j<3. Math_trunc (two_days_ago_totals j) = 0" "Math_trunc (two_days_ago_totals 3) = - 2"
proof -
  show "\<forall>j<3. Math_trunc (two_days_ago_totals j) = 0"
  proof (intro allI impI)
    fix j :: nat assume "j < 3"
    then have "j = 0 \<or> j = 1 \<or> j = 2" by linarith
    then show "Math_trunc (two_days_ago_totals j) = 0"
      by (elim disjE) (simp_all add: Math_trunc_toward_zero two_days_ago_totals_def)
  qed
  show "Math_trunc (two_days_ago_totals 3) = - 2"
    by (simp add: Math_trunc_toward_zero two_days_ago_totals_def)
qed

lemma two_days_ago_phrase: "english_RelativeTimeFormat Always (- 2) Days = ''2 days ago''"
  by code_simp

lemma relative_example_two_days_ago:
  "formatRelativeIso8601DateTimeStr Instant_from_iso (british_host h) utc_total
     (fixed_clock (Instant 1651745533000000000)) tzdb ''2022-05-03T10:12:13Z''
   = Inr ''2 days ago''"
proof -
  have "formatRelativeInstant (british_host h) utc_total (fixed_clock (Instant 1651745533000000000))
          tzdb (Instant 1651572733000000000)
        = Inr (english_RelativeTimeFormat Always (Math_trunc (two_days_ago_totals 3)) (units ! 3))"
    using formatRelativeInstant_cascade [where x = two_days_ago_totals and n = 3 and tzdb = tzdb
        and host = "british_host h" and new = english_RelativeTimeFormat and T = utc_total
        and clk = "fixed_clock (Instant 1651745533000000000)" and i = "Instant 1651572733000000000"]
      british_rtf [of h] two_days_ago_totals_utc two_days_ago_truncated
    by simp
  then show ?thesis
    by (simp add: formatRelativeIso8601DateTimeStr_def parseInstant_def two_days_ago_parse
        two_days_ago_phrase relative_example_units two_days_ago_truncated)
qed

lemma relative_example_in_nine_seconds:
  "formatRelativeIso8601DateTimeStr Instant_from_iso (british_host h) utc_total
     (fixed_clock (Instant 1651745533000000000)) tzdb ''2022-05-05T10:12:22Z''
   = Inr ''in 9 seconds''"
proof -
  let ?rel = "\<lparr>zdt_epochNanoseconds = 1651745533000000000, timeZoneId = ''UTC''\<rparr>"
  let ?dur = "\<lparr>dur_seconds = 9, dur_milliseconds = 0, dur_microseconds = 0, dur_nanoseconds = 0\<rparr>"
  let ?x = "\<lambda>j::nat. if j = 0 then 9000000000 / 31536000000000000
              else if j = 1 then 9000000000 / 2678400000000000
              else if j = 2 then 9000000000 / 604800000000000
              else if j = 3 then 9000000000 / 86400000000000
              else if j = 4 then 9000000000 / 3600000000000
              else if j = 5 then 9000000000 / 60000000000
              else (9000000000 / 1000000000 :: real)"
  have p: "Instant_from_iso ''2022-05-05T10:12:22Z'' = Inr (Instant 1651745542000000000)"
    by code_simp
  have s: "Instant_since (Instant 1651745542000000000) (fixed_clock (Instant 1651745533000000000) 0)
           = ?dur"
    by code_simp
  have f: "utc_total_fraction ?dur Years ?rel = Inr (0, 9000000000, 31536000000000000)"
          "utc_total_fraction ?dur Months ?rel = Inr (0, 9000000000, 2678400000000000)"
          "utc_total_fraction ?dur Weeks ?rel = Inr (0, 9000000000, 604800000000000)"
          "utc_total_fraction ?dur Days ?rel = Inr (0, 9000000000, 86400000000000)"
          "utc_total_fraction ?dur Hours ?rel = Inr (0, 9000000000, 3600000000000)"
          "utc_total_fraction ?dur Minutes ?rel = Inr (0, 9000000000, 60000000000)"
          "utc_total_fraction ?dur Seconds ?rel = Inr (0, 9000000000, 1000000000)"
    by code_simp+
  have t: "\<forall>j<7. utc_total (Instant_since (Instant 1651745542000000000)
                     (fixed_clock (Instant 1651745533000000000) 0)) (units ! j)
             \<lparr>zdt_epochNanoseconds = epochNanoseconds (fixed_clock (Instant 1651745533000000000) (Suc j)),
              timeZoneId = ''UTC''\<rparr>
           = Inr (?x j)"
  proof (intro allI impI)
    fix j :: nat assume "j < 7"
    then have "j = 0 \<or> j = 1 \<or> j = 2 \<or> j = 3 \<or> j = 4 \<or> j = 5 \<or> j = 6" by (rule less_7_cases)
    then show "utc_total (Instant_since (Instant 1651745542000000000)
                     (fixed_clock (Instant 1651745533000000000) 0)) (units ! j)
             \<lparr>zdt_epochNanoseconds = epochNanoseconds (fixed_clock (Instant 1651745533000000000) (Suc j)),
              timeZoneId = ''UTC''\<rparr>
           = Inr (?x j)"
      unfolding s by (elim disjE) (simp_all add: relative_example_units fixed_clock_def utc_total_def f)
  qed
  have z: "\<forall>j<6. Math_trunc (?x j) = 0"
  proof (intro allI impI)
    fix j :: nat assume "j < 6"
    then have "j = 0 \<or> j = 1 \<or> j = 2 \<or> j = 3 \<or> j = 4 \<or> j = 5" by linarith
    then show "Math_trunc (?x j) = 0" by (elim disjE) (simp_all add: Math_trunc_toward_zero)
  qed
  have n: "Math_trunc (?x 6) = 9" by (simp add: Math_trunc_toward_zero)
  have ph: "english_RelativeTimeFormat Always 9 Seconds = ''in 9 seconds''" by code_simp
  have "formatRelativeInstant (british_host h) utc_total (fixed_clock (Instant 1651745533000000000))
          tzdb (Instant 1651745542000000000)
        = Inr (english_RelativeTimeFormat Always (Math_trunc (?x 6)) (units ! 6))"
    using formatRelativeInstant_cascade [where x = ?x and n = 6 and tzdb = tzdb
        and host = "british_host h" and new = english_RelativeTimeFormat and T = utc_total
        and clk = "fixed_clock (Instant 1651745533000000000)" and i = "Instant 1651745542000000000"]
      british_rtf [of h] t z n
    by simp
  then show ?thesis
    by (simp add: formatRelativeIso8601DateTimeStr_def parseInstant_def p ph relative_example_units
        Math_trunc_toward_zero)
qed

lemma relative_example_now:
  "formatRelativeIso8601DateTimeStr Instant_from_iso (british_host h) utc_total
     (fixed_clock (Instant 1651745533000000000)) tzdb ''2022-05-05T10:12:13Z''
   = Inr ''now''"
proof -
  let ?rel = "\<lparr>zdt_epochNanoseconds = 1651745533000000000, timeZoneId = ''UTC''\<rparr>"
  let ?dur = "\<lparr>dur_seconds = 0, dur_milliseconds = 0, dur_microseconds = 0, dur_nanoseconds = 0\<rparr>"
  have p: "Instant_from_iso ''2022-05-05T10:12:13Z'' = Inr (Instant 1651745533000000000)"
    by code_simp
  have s: "Instant_since (Instant 1651745533000000000) (fixed_clock (Instant 1651745533000000000) 0)
           = ?dur"
    by code_simp
  have f: "utc_total_fraction ?dur Years ?rel = Inr (0, 0, 31536000000000000)"
          "utc_total_fraction ?dur Months ?rel = Inr (0, 0, 2678400000000000)"
          "utc_total_fraction ?dur Weeks ?rel = Inr (0, 0, 604800000000000)"
          "utc_total_fraction ?dur Days ?rel = Inr (0, 0, 86400000000000)"
          "utc_total_fraction ?dur Hours ?rel = Inr (0, 0, 3600000000000)"
          "utc_total_fraction ?dur Minutes ?rel = Inr (0, 0, 60000000000)"
          "utc_total_fraction ?dur Seconds ?rel = Inr (0, 0, 1000000000)"
    by code_simp+
  have t: "\<forall>j<7. utc_total (Instant_since (Instant 1651745533000000000)
                     (fixed_clock (Instant 1651745533000000000) 0)) (units ! j)
             \<lparr>zdt_epochNanoseconds = epochNanoseconds (fixed_clock (Instant 1651745533000000000) (Suc j)),
              timeZoneId = ''UTC''\<rparr>
           = Inr 0"
  proof (intro allI impI)
    fix j :: nat assume "j < 7"
    then have "j = 0 \<or> j = 1 \<or> j = 2 \<or> j = 3 \<or> j = 4 \<or> j = 5 \<or> j = 6" by (rule less_7_cases)
    then show "utc_total (Instant_since (Instant 1651745533000000000)
                     (fixed_clock (Instant 1651745533000000000) 0)) (units ! j)
             \<lparr>zdt_epochNanoseconds = epochNanoseconds (fixed_clock (Instant 1651745533000000000) (Suc j)),
              timeZoneId = ''UTC''\<rparr>
           = Inr 0"
      unfolding s by (elim disjE) (simp_all add: relative_example_units fixed_clock_def utc_total_def f)
  qed
  have ph: "english_RelativeTimeFormat Auto 0 Seconds = ''now''" by code_simp
  have "formatRelativeInstant (british_host h) utc_total (fixed_clock (Instant 1651745533000000000))
          tzdb (Instant 1651745533000000000)
        = Inr (english_RelativeTimeFormat Auto 0 Seconds)"
    using formatRelativeInstant_cascade [where x = "\<lambda>_. 0" and n = 0 and tzdb = tzdb
        and host = "british_host h" and new = english_RelativeTimeFormat and T = utc_total
        and clk = "fixed_clock (Instant 1651745533000000000)" and i = "Instant 1651745533000000000"]
      british_rtf [of h] t
    by (simp add: Math_trunc_toward_zero)
  then show ?thesis
    by (simp add: formatRelativeIso8601DateTimeStr_def parseInstant_def p ph)
qed

text \<open>The loop, one unit at a time: what it returns when the units before unit \<open>n\<close> all
  truncate to zero, and when all of them do.\<close>

lemma units_loop_step:
  "units_loop f g T clk tzdb dur k (u # us) =
     (case T dur u \<lparr>zdt_epochNanoseconds = epochNanoseconds (clk k), timeZoneId = ''UTC''\<rparr> of
        Inl e \<Rightarrow> Inl e
      | Inr num \<Rightarrow>
          if Math_trunc num \<noteq> 0 then Inr (f (Math_trunc num) u)
          else units_loop f g T clk tzdb dur (Suc k) us)"
  by (simp add: nowLocal_UTC Let_def split: sum.splits)

lemma units_loop_prefix:
  assumes "n < length us"
      and "\<forall>j<n. T dur (us ! j)
             \<lparr>zdt_epochNanoseconds = epochNanoseconds (clk (k + j)), timeZoneId = ''UTC''\<rparr>
           = Inr (x j) \<and> Math_trunc (x j) = 0"
  shows "units_loop f g T clk tzdb dur k us =
     (case T dur (us ! n)
             \<lparr>zdt_epochNanoseconds = epochNanoseconds (clk (k + n)), timeZoneId = ''UTC''\<rparr> of
        Inl e \<Rightarrow> Inl e
      | Inr num \<Rightarrow>
          if Math_trunc num \<noteq> 0 then Inr (f (Math_trunc num) (us ! n))
          else units_loop f g T clk tzdb dur (Suc (k + n)) (drop (Suc n) us))"
  using assms
proof (induction n arbitrary: us k x)
  case 0
  then obtain u rest where us: "us = u # rest" by (cases us) auto
  show ?case
    unfolding us
    by (simp only: units_loop_step nth_Cons_0 drop_Suc_Cons drop_0 add_0_right)
next
  case (Suc n)
  then obtain u rest where us: "us = u # rest" by (cases us) auto
  have h: "T dur u \<lparr>zdt_epochNanoseconds = epochNanoseconds (clk k), timeZoneId = ''UTC''\<rparr>
           = Inr (x 0)" "Math_trunc (x 0) = 0"
    using Suc.prems(2) [rule_format, of 0] us by simp_all
  have r: "units_loop f g T clk tzdb dur k us = units_loop f g T clk tzdb dur (Suc k) rest"
    by (simp add: us units_loop_step h del: units_loop.simps)
  have n: "n < length rest" using Suc.prems(1) us by simp
  have t: "\<forall>j<n. T dur (rest ! j)
             \<lparr>zdt_epochNanoseconds = epochNanoseconds (clk (Suc k + j)), timeZoneId = ''UTC''\<rparr>
           = Inr (x (Suc j)) \<and> Math_trunc (x (Suc j)) = 0"
  proof (intro allI impI)
    fix j assume "j < n"
    then have "Suc j < Suc n" by simp
    from Suc.prems(2) [rule_format, OF this] show "T dur (rest ! j)
             \<lparr>zdt_epochNanoseconds = epochNanoseconds (clk (Suc k + j)), timeZoneId = ''UTC''\<rparr>
           = Inr (x (Suc j)) \<and> Math_trunc (x (Suc j)) = 0"
      using us by simp
  qed
  show ?case
    unfolding r using Suc.IH [of rest "Suc k" "\<lambda>j. x (Suc j)", OF n t] us
    by (simp split: sum.splits del: units_loop.simps)
qed

lemma units_loop_all_zero:
  assumes "\<forall>j<length us. T dur (us ! j)
             \<lparr>zdt_epochNanoseconds = epochNanoseconds (clk (k + j)), timeZoneId = ''UTC''\<rparr>
           = Inr (x j) \<and> Math_trunc (x j) = 0"
  shows "units_loop f g T clk tzdb dur k us = Inr (g 0 Seconds)"
  using assms
proof (induction us arbitrary: k x)
  case Nil
  then show ?case by simp
next
  case (Cons u us)
  have h: "T dur u \<lparr>zdt_epochNanoseconds = epochNanoseconds (clk k), timeZoneId = ''UTC''\<rparr>
           = Inr (x 0)" "Math_trunc (x 0) = 0"
    using Cons.prems [rule_format, of 0] by simp_all
  have t: "\<forall>j<length us. T dur (us ! j)
             \<lparr>zdt_epochNanoseconds = epochNanoseconds (clk (Suc k + j)), timeZoneId = ''UTC''\<rparr>
           = Inr (x (Suc j)) \<and> Math_trunc (x (Suc j)) = 0"
  proof (intro allI impI)
    fix j assume "j < length us"
    then have "Suc j < length (u # us)" by simp
    from Cons.prems [rule_format, OF this] show "T dur (us ! j)
             \<lparr>zdt_epochNanoseconds = epochNanoseconds (clk (Suc k + j)), timeZoneId = ''UTC''\<rparr>
           = Inr (x (Suc j)) \<and> Math_trunc (x (Suc j)) = 0"
      by simp
  qed
  show ?case
    using Cons.IH [of "Suc k" "\<lambda>j. x (Suc j)", OF t]
    by (simp add: units_loop_step h del: units_loop.simps)
qed

lemma formatRelativeInstant_loop:
  "formatRelativeInstant host T clk tzdb i =
     (case RelativeTimeFormat host of
        None \<Rightarrow> Inl IntlUnsupported
      | Some new \<Rightarrow>
          units_loop (new Always) (new Auto) T clk tzdb (Instant_since i (clk 0)) 1 units)"
  by (simp add: formatRelativeInstant_def rtf_def rtfNumeric_def now_def split: option.splits)

lemma formatRelativeInstant_first:
  assumes "RelativeTimeFormat host = Some new" "n < 7"
      and "\<forall>j<n. T (Instant_since i (clk 0)) (units ! j)
             \<lparr>zdt_epochNanoseconds = epochNanoseconds (clk (Suc j)), timeZoneId = ''UTC''\<rparr>
           = Inr (x j) \<and> Math_trunc (x j) = 0"
  shows "formatRelativeInstant host T clk tzdb i =
     (case T (Instant_since i (clk 0)) (units ! n)
             \<lparr>zdt_epochNanoseconds = epochNanoseconds (clk (Suc n)), timeZoneId = ''UTC''\<rparr> of
        Inl e \<Rightarrow> Inl e
      | Inr num \<Rightarrow>
          if Math_trunc num \<noteq> 0 then Inr (new Always (Math_trunc num) (units ! n))
          else units_loop (new Always) (new Auto) T clk tzdb (Instant_since i (clk 0))
                 (Suc (Suc n)) (drop (Suc n) units))"
proof -
  have l: "n < length units" using assms(2) by (simp add: units_def)
  have p: "\<forall>j<n. T (Instant_since i (clk 0)) (units ! j)
             \<lparr>zdt_epochNanoseconds = epochNanoseconds (clk (1 + j)), timeZoneId = ''UTC''\<rparr>
           = Inr (x j) \<and> Math_trunc (x j) = 0"
    using assms(3) by simp
  show ?thesis
    unfolding formatRelativeInstant_loop assms(1)
    using units_loop_prefix [where us = units and T = T and dur = "Instant_since i (clk 0)"
        and clk = clk and k = 1 and x = x and n = n and f = "new Always" and g = "new Auto"
        and tzdb = tzdb, OF l p]
    by (simp split: sum.splits)
qed

lemma formatRelativeInstant_none:
  assumes "RelativeTimeFormat host = Some new"
      and "\<forall>j<7. T (Instant_since i (clk 0)) (units ! j)
             \<lparr>zdt_epochNanoseconds = epochNanoseconds (clk (Suc j)), timeZoneId = ''UTC''\<rparr>
           = Inr (x j) \<and> Math_trunc (x j) = 0"
  shows "formatRelativeInstant host T clk tzdb i = Inr (new Auto 0 Seconds)"
proof -
  have l: "length units = 7" by (simp add: units_def)
  have p: "\<forall>j<length units. T (Instant_since i (clk 0)) (units ! j)
             \<lparr>zdt_epochNanoseconds = epochNanoseconds (clk (1 + j)), timeZoneId = ''UTC''\<rparr>
           = Inr (x j) \<and> Math_trunc (x j) = 0"
    using assms(2) l by simp
  show ?thesis
    unfolding formatRelativeInstant_loop assms(1)
    using units_loop_all_zero [where us = units and T = T and dur = "Instant_since i (clk 0)"
        and clk = clk and k = 1 and x = x and f = "new Always" and g = "new Auto"
        and tzdb = tzdb, OF p]
    by simp
qed

lemma last_instant_total:
  "utc_total (Instant_since (Instant 8640000000000000000000)
                (fixed_clock (Instant 1651745533000000000) 0)) Years
     \<lparr>zdt_epochNanoseconds = 1651745533000000000, timeZoneId = ''UTC''\<rparr>
   = Inl RangeError"
  by code_simp

text \<open>
  On a host without \<open>Intl.RelativeTimeFormat\<close> the function throws before it looks at the
  instant. With the clock at 2022-05-05T10:12:13Z and the last instant there is,
  +275760-09-13T00:00Z, the total in years is a \<open>RangeError\<close> of the library, which
  looks one day past the whole days of the duration, and the function throws it.
\<close>

theorem formatRelativeInstant_throws_counterexample:
  "formatRelativeInstant \<lparr>DateTimeFormat = None, RelativeTimeFormat = None\<rparr> utc_total
     (fixed_clock (Instant 1651745533000000000)) (\<lambda>_. None) (Instant 1651572733000000000)
   = Inl IntlUnsupported
   \<and> valid_instant (Instant 8640000000000000000000)
   \<and> formatRelativeInstant (british_host 0) utc_total
       (fixed_clock (Instant 1651745533000000000)) (\<lambda>_. None) (Instant 8640000000000000000000)
     = Inl RangeError"
proof -
  have a: "formatRelativeInstant \<lparr>DateTimeFormat = None, RelativeTimeFormat = None\<rparr> utc_total
     (fixed_clock (Instant 1651745533000000000)) (\<lambda>_. None) (Instant 1651572733000000000)
   = Inl IntlUnsupported"
    by (simp add: formatRelativeInstant_loop)
  have b: "valid_instant (Instant 8640000000000000000000)"
    by (simp add: valid_instant_def nsMaxInstant_def)
  have c: "formatRelativeInstant (british_host 0) utc_total
       (fixed_clock (Instant 1651745533000000000)) (\<lambda>_. None) (Instant 8640000000000000000000)
     = Inl RangeError"
    unfolding formatRelativeInstant_loop british_rtf units_def
    by (simp add: units_loop_step fixed_clock_def last_instant_total [unfolded fixed_clock_def]
        del: units_loop.simps)
  show ?thesis using a b c by simp
qed

text \<open>
  C1, as amended. On a host without \<open>Intl.RelativeTimeFormat\<close>, \<open>formatRelativeInstant\<close>
  throws. On a host with it, the function takes the duration from the first reading of
  the clock to the instant, and goes through years, months, weeks, days, hours, minutes
  and seconds in this order, taking the total of the duration in each unit until one,
  truncated toward zero, is not zero. When the totals of the units before unit \<open>n\<close> all
  truncate to zero, then: if the total in unit \<open>n\<close> does not, the result is the phrase of
  the always-numeric formatter for it, whatever the totals in the units after it; and
  if the library throws instead of giving the total in unit \<open>n\<close>, the function throws the
  same. When all seven totals truncate to zero, the result is the phrase of the auto
  formatter for zero seconds. Truncation is toward zero: -0.3 gives 0. With the clock
  fixed at 2022-05-05T10:12:13Z, an English formatter and the totals of the model, the
  three strings of the test suite give \<open>2 days ago\<close>, \<open>in 9 seconds\<close> and \<open>now\<close>.
\<close>

theorem formatRelativeInstant_first_nonzero_unit_or_throws:
  "(RelativeTimeFormat host = None \<longrightarrow>
      formatRelativeInstant host T clk tzdb i = Inl IntlUnsupported)
   \<and> (RelativeTimeFormat host = Some new \<and> n < 7
        \<and> (\<forall>j<n. T (Instant_since i (clk 0)) (units ! j)
                    \<lparr>zdt_epochNanoseconds = epochNanoseconds (clk (Suc j)), timeZoneId = ''UTC''\<rparr>
                  = Inr (x j) \<and> Math_trunc (x j) = 0)
        \<and> T (Instant_since i (clk 0)) (units ! n)
            \<lparr>zdt_epochNanoseconds = epochNanoseconds (clk (Suc n)), timeZoneId = ''UTC''\<rparr>
          = Inr y
        \<and> Math_trunc y \<noteq> 0
      \<longrightarrow> formatRelativeInstant host T clk tzdb i = Inr (new Always (Math_trunc y) (units ! n)))
   \<and> (RelativeTimeFormat host = Some new \<and> n < 7
        \<and> (\<forall>j<n. T (Instant_since i (clk 0)) (units ! j)
                    \<lparr>zdt_epochNanoseconds = epochNanoseconds (clk (Suc j)), timeZoneId = ''UTC''\<rparr>
                  = Inr (x j) \<and> Math_trunc (x j) = 0)
        \<and> T (Instant_since i (clk 0)) (units ! n)
            \<lparr>zdt_epochNanoseconds = epochNanoseconds (clk (Suc n)), timeZoneId = ''UTC''\<rparr>
          = Inl e
      \<longrightarrow> formatRelativeInstant host T clk tzdb i = Inl e)
   \<and> (RelativeTimeFormat host = Some new
        \<and> (\<forall>j<7. T (Instant_since i (clk 0)) (units ! j)
                    \<lparr>zdt_epochNanoseconds = epochNanoseconds (clk (Suc j)), timeZoneId = ''UTC''\<rparr>
                  = Inr (x j) \<and> Math_trunc (x j) = 0)
      \<longrightarrow> formatRelativeInstant host T clk tzdb i = Inr (new Auto 0 Seconds))
   \<and> duration_nanoseconds (Instant_since i (clk 0)) = epochNanoseconds i - epochNanoseconds (clk 0)
   \<and> units = [Years, Months, Weeks, Days, Hours, Minutes, Seconds]
   \<and> Math_trunc z = (if z < 0 then - \<lfloor>- z\<rfloor> else \<lfloor>z\<rfloor>)
   \<and> Math_trunc (- 3 / 10) = 0
   \<and> formatRelativeIso8601DateTimeStr Instant_from_iso (british_host h) utc_total
        (fixed_clock (Instant 1651745533000000000)) tzdb' ''2022-05-03T10:12:13Z''
      = Inr ''2 days ago''
   \<and> formatRelativeIso8601DateTimeStr Instant_from_iso (british_host h) utc_total
        (fixed_clock (Instant 1651745533000000000)) tzdb' ''2022-05-05T10:12:22Z''
      = Inr ''in 9 seconds''
   \<and> formatRelativeIso8601DateTimeStr Instant_from_iso (british_host h) utc_total
        (fixed_clock (Instant 1651745533000000000)) tzdb' ''2022-05-05T10:12:13Z''
      = Inr ''now''"
proof -
  have a: "Math_trunc (- 3 / 10) = 0" by (simp add: Math_trunc_toward_zero)
  have b: "units = [Years, Months, Weeks, Days, Hours, Minutes, Seconds]" by (simp add: units_def)
  have c: "formatRelativeInstant host T clk tzdb i = Inl IntlUnsupported"
    if "RelativeTimeFormat host = None"
    using that by (simp add: formatRelativeInstant_loop)
  have d: "formatRelativeInstant host T clk tzdb i = Inr (new Always (Math_trunc y) (units ! n))"
    if "RelativeTimeFormat host = Some new \<and> n < 7
        \<and> (\<forall>j<n. T (Instant_since i (clk 0)) (units ! j)
                    \<lparr>zdt_epochNanoseconds = epochNanoseconds (clk (Suc j)), timeZoneId = ''UTC''\<rparr>
                  = Inr (x j) \<and> Math_trunc (x j) = 0)
        \<and> T (Instant_since i (clk 0)) (units ! n)
            \<lparr>zdt_epochNanoseconds = epochNanoseconds (clk (Suc n)), timeZoneId = ''UTC''\<rparr>
          = Inr y
        \<and> Math_trunc y \<noteq> 0"
    using formatRelativeInstant_first [of host new n T i clk x tzdb] that by simp
  have e: "formatRelativeInstant host T clk tzdb i = Inl e"
    if "RelativeTimeFormat host = Some new \<and> n < 7
        \<and> (\<forall>j<n. T (Instant_since i (clk 0)) (units ! j)
                    \<lparr>zdt_epochNanoseconds = epochNanoseconds (clk (Suc j)), timeZoneId = ''UTC''\<rparr>
                  = Inr (x j) \<and> Math_trunc (x j) = 0)
        \<and> T (Instant_since i (clk 0)) (units ! n)
            \<lparr>zdt_epochNanoseconds = epochNanoseconds (clk (Suc n)), timeZoneId = ''UTC''\<rparr>
          = Inl e"
    using formatRelativeInstant_first [of host new n T i clk x tzdb] that by simp
  have f: "formatRelativeInstant host T clk tzdb i = Inr (new Auto 0 Seconds)"
    if "RelativeTimeFormat host = Some new
        \<and> (\<forall>j<7. T (Instant_since i (clk 0)) (units ! j)
                    \<lparr>zdt_epochNanoseconds = epochNanoseconds (clk (Suc j)), timeZoneId = ''UTC''\<rparr>
                  = Inr (x j) \<and> Math_trunc (x j) = 0)"
    using formatRelativeInstant_none [of host new T i clk x tzdb] that by simp
  show ?thesis
    using c d e f duration_since [of i "clk 0"]
      Math_trunc_toward_zero [of z] a b
      relative_example_two_days_ago [of h tzdb'] relative_example_in_nine_seconds [of h tzdb']
      relative_example_now [of h tzdb']
    by blast
qed

theorem formatRelativeInstant_first_nonzero_unit_or_throws_witness:
  "RelativeTimeFormat (british_host 0) = Some english_RelativeTimeFormat
   \<and> Math_trunc (two_days_ago_totals 0) = 0 \<and> Math_trunc (two_days_ago_totals 1) = 0
   \<and> Math_trunc (two_days_ago_totals 2) = 0 \<and> Math_trunc (two_days_ago_totals 3) = - 2
   \<and> formatRelativeInstant (british_host 0) utc_total (fixed_clock (Instant 1651745533000000000))
        (\<lambda>_. None) (Instant 1651572733000000000)
      = Inr ''2 days ago''
   \<and> formatRelativeInstant (british_host 0) utc_total (fixed_clock (Instant 1651745533000000000))
        (\<lambda>_. None) (Instant (- 8640000000000000000000))
      = Inl RangeError
   \<and> formatRelativeInstant \<lparr>DateTimeFormat = None, RelativeTimeFormat = None\<rparr> utc_total
        (fixed_clock (Instant 1651745533000000000)) (\<lambda>_. None) (Instant 1651745542000000000)
      = Inl IntlUnsupported"
proof -
  let ?clk = "fixed_clock (Instant 1651745533000000000)"
  have p: "\<forall>j<3. utc_total (Instant_since (Instant 1651572733000000000) (?clk 0)) (units ! j)
             \<lparr>zdt_epochNanoseconds = epochNanoseconds (?clk (Suc j)), timeZoneId = ''UTC''\<rparr>
           = Inr (two_days_ago_totals j) \<and> Math_trunc (two_days_ago_totals j) = 0"
    using two_days_ago_totals_utc two_days_ago_truncated(1) by simp
  have q: "utc_total (Instant_since (Instant 1651572733000000000) (?clk 0)) (units ! 3)
             \<lparr>zdt_epochNanoseconds = epochNanoseconds (?clk (Suc 3)), timeZoneId = ''UTC''\<rparr>
           = Inr (two_days_ago_totals 3)"
    using two_days_ago_totals_utc [rule_format, of 3] by simp
  have c: "formatRelativeInstant (british_host 0) utc_total ?clk (\<lambda>_. None) (Instant 1651572733000000000)
           = Inr (english_RelativeTimeFormat Always (Math_trunc (two_days_ago_totals 3)) (units ! 3))"
    using formatRelativeInstant_first_nonzero_unit_or_throws
        [where x = two_days_ago_totals and n = 3 and tzdb = "\<lambda>_. None"
          and host = "british_host 0" and new = english_RelativeTimeFormat and T = utc_total
          and clk = ?clk and i = "Instant 1651572733000000000" and y = "two_days_ago_totals 3"]
      british_rtf [of 0] p q two_days_ago_truncated(2)
    by simp
  have t: "utc_total (Instant_since (Instant (- 8640000000000000000000)) (?clk 0)) (units ! 0)
             \<lparr>zdt_epochNanoseconds = epochNanoseconds (?clk (Suc 0)), timeZoneId = ''UTC''\<rparr>
           = Inl RangeError"
    unfolding relative_example_units by code_simp
  have r: "formatRelativeInstant (british_host 0) utc_total ?clk (\<lambda>_. None)
             (Instant (- 8640000000000000000000)) = Inl RangeError"
    using formatRelativeInstant_first_nonzero_unit_or_throws
        [where x = two_days_ago_totals and n = 0 and tzdb = "\<lambda>_. None"
          and host = "british_host 0" and new = english_RelativeTimeFormat and T = utc_total
          and clk = ?clk and i = "Instant (- 8640000000000000000000)" and e = RangeError]
      british_rtf [of 0] t
    by simp
  have u: "formatRelativeInstant \<lparr>DateTimeFormat = None, RelativeTimeFormat = None\<rparr> utc_total
        ?clk (\<lambda>_. None) (Instant 1651745542000000000) = Inl IntlUnsupported"
    using formatRelativeInstant_first_nonzero_unit_or_throws
        [where host = "\<lparr>DateTimeFormat = None, RelativeTimeFormat = None\<rparr>" and T = utc_total
          and clk = ?clk and tzdb = "\<lambda>_. None" and i = "Instant 1651745542000000000"]
    by simp
  have z: "Math_trunc (two_days_ago_totals 0) = 0" "Math_trunc (two_days_ago_totals 1) = 0"
          "Math_trunc (two_days_ago_totals 2) = 0"
    using two_days_ago_truncated(1) by simp_all
  show ?thesis
    using c r u z british_rtf [of 0]
    by (simp add: two_days_ago_truncated two_days_ago_phrase relative_example_units)
qed

end
